theory Spec2Isabelle
  imports Main
begin

section \<open>The schema analyzer of typed-gql/analyzer\<close>

text \<open>
  The sources hold three revisions of one module. The module analysed is the latest, the
  one with \<^verbatim>\<open>SchemaContext\<close>, \<^verbatim>\<open>raise\<close> and \<^verbatim>\<open>analyzeOperation\<close>; the traversal of the
  revision before it is modelled further down, for comparison.
  Every function below is a transcription of the TypeScript function of the same name.
  A thrown \<^verbatim>\<open>ParseError\<close> is the left side of a sum. A \<^verbatim>\<open>for\<close> loop is a recursive
  function, named after the function it belongs to, that carries the object being
  filled. A function that mutates the context or a type definition returns the mutated
  value. The properties of the TypeScript interfaces keep their names, behind a prefix
  that tells the records apart (\<open>td_\<close> for \<^verbatim>\<open>TypeDefinition\<close>, \<open>ctx_\<close> for \<^verbatim>\<open>SchemaContext\<close>).
\<close>

subsection \<open>Errors and exceptions\<close>

datatype Error = Error (message: string)

definition raise :: "Error \<Rightarrow> Error + 'a" where
  "raise e = Inl e"

text \<open>Sequencing of two computations one of which may throw: the first throw wins.\<close>

definition andThen :: "Error + 'a \<Rightarrow> ('a \<Rightarrow> Error + 'b) \<Rightarrow> Error + 'b" where
  "andThen r f = (case r of Inl e \<Rightarrow> Inl e | Inr x \<Rightarrow> f x)"

text \<open>\<^verbatim>\<open>xs.map(f)\<close> with an \<open>f\<close> that may throw: left to right, the first throw wins.\<close>

fun mapRaise :: "('a \<Rightarrow> Error + 'b) \<Rightarrow> 'a list \<Rightarrow> Error + 'b list" where
  "mapRaise f [] = Inr []"
| "mapRaise f (x # xs) =
     andThen (f x) (\<lambda>y. andThen (mapRaise f xs) (\<lambda>ys. Inr (y # ys)))"

subsection \<open>JavaScript values\<close>

text \<open>
  The analyzer keeps its symbol tables in plain objects created by \<^verbatim>\<open>{}\<close> and tests
  membership with \<^verbatim>\<open>if (obj[key])\<close>. Such an object inherits the properties of
  \<^verbatim>\<open>Object.prototype\<close>, whose values are functions (an object for \<^verbatim>\<open>__proto__\<close>), all
  truthy and none with a property \<^verbatim>\<open>type\<close>. A read \<^verbatim>\<open>obj[key]\<close> therefore has three possible
  outcomes. The values the analyzer stores itself are objects, hence truthy. No own
  property with an inherited name is ever created, because every store is guarded by
  the truthiness test of the same key.
\<close>

definition Object_prototype_keys :: "string list" where
  "Object_prototype_keys =
     [''constructor'', ''hasOwnProperty'', ''isPrototypeOf'', ''propertyIsEnumerable'',
      ''toLocaleString'', ''toString'', ''valueOf'', ''__proto__'',
      ''__defineGetter__'', ''__defineSetter__'', ''__lookupGetter__'', ''__lookupSetter__'']"

datatype 'a property = Own 'a | Inherited | Absent

definition get :: "(string \<rightharpoonup> 'a) \<Rightarrow> string \<Rightarrow> 'a property" where
  "get obj key =
     (case obj key of
        Some v \<Rightarrow> Own v
      | None \<Rightarrow> if key \<in> set Object_prototype_keys then Inherited else Absent)"

text \<open>\<^verbatim>\<open>if (obj[key])\<close> for an object that stores objects.\<close>

definition truthy :: "'a property \<Rightarrow> bool" where
  "truthy p = (case p of Absent \<Rightarrow> False | _ \<Rightarrow> True)"

text \<open>\<^verbatim>\<open>if (s)\<close> for \<^verbatim>\<open>s: string | undefined\<close>: the empty string is falsy.\<close>

definition truthyString :: "string option \<Rightarrow> bool" where
  "truthyString s = (case s of None \<Rightarrow> False | Some t \<Rightarrow> t \<noteq> [])"

text \<open>\<^verbatim>\<open>`${s}`\<close> for \<^verbatim>\<open>s: string | undefined\<close>.\<close>

definition template :: "string option \<Rightarrow> string" where
  "template s = (case s of None \<Rightarrow> ''undefined'' | Some t \<Rightarrow> t)"

text \<open>\<^verbatim>\<open>xs ?? []\<close>\<close>

definition orEmpty :: "'a list option \<Rightarrow> 'a list" where
  "orEmpty xs = (case xs of None \<Rightarrow> [] | Some ys \<Rightarrow> ys)"

subsection \<open>The parser's nodes\<close>

text \<open>
  Modelled from the spec: the declarations of \<^verbatim>\<open>@typed-gql/parser\<close> are not part of the
  sources. The nodes below have exactly the properties the analyzer reads, optional where
  the analyzer guards the read with \<^verbatim>\<open>??\<close> or \<^verbatim>\<open>optional\<close>. \<^verbatim>\<open>Type\<close> and \<^verbatim>\<open>Value\<close> are never
  inspected and stay type parameters \<open>'ty\<close> and \<open>'val\<close>. The three operation types are
  the keys of \<^verbatim>\<open>{ query: undefined, mutation: undefined, subscription: undefined }\<close> in the
  earlier revisions; the names of the directive locations are those of the GraphQL
  grammar.
\<close>

datatype OperationType = Query | Mutation | Subscription

fun OperationType_string :: "OperationType \<Rightarrow> string" where
  "OperationType_string Query = ''query''"
| "OperationType_string Mutation = ''mutation''"
| "OperationType_string Subscription = ''subscription''"

datatype DirectiveLocation =
    QUERY | MUTATION | SUBSCRIPTION | FIELD | FRAGMENT_DEFINITION | FRAGMENT_SPREAD
  | INLINE_FRAGMENT | VARIABLE_DEFINITION | SCHEMA | SCALAR | OBJECT | FIELD_DEFINITION
  | ARGUMENT_DEFINITION | INTERFACE | UNION | ENUM | ENUM_VALUE | INPUT_OBJECT
  | INPUT_FIELD_DEFINITION

fun DirectiveLocation_string :: "DirectiveLocation \<Rightarrow> string" where
  "DirectiveLocation_string QUERY = ''QUERY''"
| "DirectiveLocation_string MUTATION = ''MUTATION''"
| "DirectiveLocation_string SUBSCRIPTION = ''SUBSCRIPTION''"
| "DirectiveLocation_string FIELD = ''FIELD''"
| "DirectiveLocation_string FRAGMENT_DEFINITION = ''FRAGMENT_DEFINITION''"
| "DirectiveLocation_string FRAGMENT_SPREAD = ''FRAGMENT_SPREAD''"
| "DirectiveLocation_string INLINE_FRAGMENT = ''INLINE_FRAGMENT''"
| "DirectiveLocation_string VARIABLE_DEFINITION = ''VARIABLE_DEFINITION''"
| "DirectiveLocation_string SCHEMA = ''SCHEMA''"
| "DirectiveLocation_string SCALAR = ''SCALAR''"
| "DirectiveLocation_string OBJECT = ''OBJECT''"
| "DirectiveLocation_string FIELD_DEFINITION = ''FIELD_DEFINITION''"
| "DirectiveLocation_string ARGUMENT_DEFINITION = ''ARGUMENT_DEFINITION''"
| "DirectiveLocation_string INTERFACE = ''INTERFACE''"
| "DirectiveLocation_string UNION = ''UNION''"
| "DirectiveLocation_string ENUM = ''ENUM''"
| "DirectiveLocation_string ENUM_VALUE = ''ENUM_VALUE''"
| "DirectiveLocation_string INPUT_OBJECT = ''INPUT_OBJECT''"
| "DirectiveLocation_string INPUT_FIELD_DEFINITION = ''INPUT_FIELD_DEFINITION''"

record 'val ParserArgument =
  pa_name :: string
  pa_value :: 'val

record 'val ParserDirective =
  pd_name :: string
  pd_arguments :: "'val ParserArgument list option"

record ('ty, 'val) ParserInputValueDefinition =
  piv_name :: string
  piv_description :: "string option"
  piv_type :: 'ty
  piv_defaultValue :: "'val option"
  piv_directives :: "'val ParserDirective list option"

type_synonym ('ty, 'val) ParserArgumentsDefinition =
  "('ty, 'val) ParserInputValueDefinition list"

record ('ty, 'val) ParserFieldDefinition =
  pfd_description :: "string option"
  pfd_name :: string
  pfd_argumentsDefinition :: "('ty, 'val) ParserArgumentsDefinition option"
  pfd_type :: 'ty
  pfd_directives :: "'val ParserDirective list option"

type_synonym ('ty, 'val) ParserFieldsDefinition =
  "('ty, 'val) ParserFieldDefinition list"

record 'val ParserEnumValueDefinition =
  pev_enumValue :: string
  pev_description :: "string option"
  pev_directives :: "'val ParserDirective list option"

record RootOperationTypeDefinition =
  rotd_operationType :: OperationType
  rotd_type :: string

record 'val SchemaDefinition =
  sd_description :: "string option"
  sd_rootOperationTypeDefinitions :: "RootOperationTypeDefinition list"
  sd_directives :: "'val ParserDirective list option"

record ('ty, 'val) ParserDirectiveDefinition =
  pdd_description :: "string option"
  pdd_name :: string
  pdd_repeatable :: bool
  pdd_argumentsDefinition :: "('ty, 'val) ParserArgumentsDefinition option"
  pdd_directiveLocations :: "DirectiveLocation list"

text \<open>The discriminant \<^verbatim>\<open>typeType\<close> together with the properties each kind carries;
  the same six shapes serve type definitions and type extensions.\<close>

datatype ('ty, 'val) typeType =
    typeType_scalar
  | typeType_object "string list option" "('ty, 'val) ParserFieldsDefinition option"
  | typeType_interface "string list option" "('ty, 'val) ParserFieldsDefinition option"
  | typeType_union "string list option"
  | typeType_enum "'val ParserEnumValueDefinition list option"
  | typeType_inputObject "('ty, 'val) ParserArgumentsDefinition option"

record ('ty, 'val) ParserTypeDefinition =
  ptd_name :: string
  ptd_description :: "string option"
  ptd_directives :: "'val ParserDirective list option"
  ptd_typeType :: "('ty, 'val) typeType"

record 'val SchemaExtension =
  se_rootOperationTypeDefinitions :: "RootOperationTypeDefinition list option"
  se_directives :: "'val ParserDirective list option"

record ('ty, 'val) TypeExtension =
  te_name :: string
  te_directives :: "'val ParserDirective list option"
  te_typeType :: "('ty, 'val) typeType"

datatype ('ty, 'val) TypeSystemDefinition =
    definitionType_schema "'val SchemaDefinition"
  | definitionType_directive "('ty, 'val) ParserDirectiveDefinition"
  | definitionType_type "('ty, 'val) ParserTypeDefinition"

datatype ('ty, 'val) TypeSystemExtension =
    extensionType_schema "'val SchemaExtension"
  | extensionType_type "('ty, 'val) TypeExtension"

datatype ('ty, 'val) TypeSystemDefinitionOrExtension =
    subType_definition "('ty, 'val) TypeSystemDefinition"
  | subType_extension "('ty, 'val) TypeSystemExtension"

text \<open>The body of an executable definition is never read.\<close>

datatype ExecutableDefinition = subType_fragment | subType_operation

datatype ('ty, 'val) DocumentEntry =
    type_typeSystem "('ty, 'val) TypeSystemDefinitionOrExtension"
  | type_executable ExecutableDefinition

type_synonym ('ty, 'val) Document = "('ty, 'val) DocumentEntry list"

subsection \<open>The analyzer's own types\<close>

record 'val Argument =
  arg_name :: string
  arg_value :: 'val

type_synonym 'val Arguments = "string \<rightharpoonup> 'val Argument"

record 'val Directive =
  dir_name :: string
  dir_arguments :: "'val Arguments"

record ('ty, 'val) InputValueDefinition =
  ivd_name :: string
  ivd_description :: "string option"
  ivd_type :: 'ty
  ivd_defaultValue :: "'val option"
  ivd_directives :: "'val Directive list"

type_synonym ('ty, 'val) ArgumentsDefinition =
  "string \<rightharpoonup> ('ty, 'val) InputValueDefinition"

record ('ty, 'val) DirectiveDefinition =
  dd_description :: "string option"
  dd_locations :: "DirectiveLocation set"
  dd_name :: string
  dd_repeatable :: bool
  dd_argumentsDefinition :: "('ty, 'val) ArgumentsDefinition"

record ('ty, 'val) FieldDefinition =
  fd_description :: "string option"
  fd_name :: string
  fd_argumentsDefinition :: "('ty, 'val) ArgumentsDefinition"
  fd_directives :: "'val Directive list"
  fd_type :: 'ty

type_synonym ('ty, 'val) FieldsDefinition =
  "string \<rightharpoonup> ('ty, 'val) FieldDefinition"

record 'val EnumValueDefinition =
  evd_name :: string
  evd_description :: "string option"
  evd_directives :: "'val Directive list"

type_synonym 'val EnumValuesDefinition = "string \<rightharpoonup> 'val EnumValueDefinition"

text \<open>The tag \<^verbatim>\<open>type\<close> of a \<^verbatim>\<open>TypeDefinition\<close> with the properties that come with it:
  \<^verbatim>\<open>implementsInterfaces\<close> and \<^verbatim>\<open>fieldsDefinition\<close> for an object or an interface,
  \<^verbatim>\<open>unionMemberTypes\<close>, \<^verbatim>\<open>enumValuesDefinition\<close>, \<^verbatim>\<open>inputFieldsDefinition\<close>.\<close>

datatype ('ty, 'val) kind =
    scalar
  | object "string list" "('ty, 'val) FieldsDefinition"
  | interface "string list" "('ty, 'val) FieldsDefinition"
  | union "string list"
  | enum "'val EnumValuesDefinition"
  | inputObject "('ty, 'val) ArgumentsDefinition"

record ('ty, 'val) TypeDefinition =
  td_name :: string
  td_description :: "string option"
  td_directives :: "'val Directive list"
  td_type :: "('ty, 'val) kind"

type_synonym ('ty, 'val) TypeDefinitions = "string \<rightharpoonup> ('ty, 'val) TypeDefinition"

type_synonym ('ty, 'val) DirectiveDefinitions =
  "string \<rightharpoonup> ('ty, 'val) DirectiveDefinition"

record ('ty, 'val) Schema =
  description :: "string option"
  rootOperationTypes :: "OperationType \<rightharpoonup> string"
  schemaDirectives :: "'val Directive list"
  directiveDefinitions :: "('ty, 'val) DirectiveDefinitions"
  typeDefinitions :: "('ty, 'val) TypeDefinitions"

record ('ty, 'val) SchemaContext =
  ctx_description :: "string option"
  ctx_rootOperationTypes :: "(OperationType \<rightharpoonup> string) option"
  ctx_schemaDirectives :: "'val Directive list"
  ctx_directiveDefinitions :: "('ty, 'val) DirectiveDefinitions"
  ctx_typeDefinitions :: "('ty, 'val) TypeDefinitions"

text \<open>The analyzer never builds a \<^verbatim>\<open>Fragment\<close> or an \<^verbatim>\<open>OperationItem\<close>; their types
  stay parameters.\<close>

record ('frag, 'op) OperationContext =
  oc_fragments :: "string \<rightharpoonup> 'frag"
  oc_operations :: "string \<rightharpoonup> 'op"

record ('frag, 'op) Operation =
  fragments :: "string \<rightharpoonup> 'frag"
  operations :: "string \<rightharpoonup> 'op"

subsection \<open>Directives and argument definitions\<close>

fun directive_loop ::
  "'val ParserArgument list \<Rightarrow> string \<Rightarrow> string \<Rightarrow> 'val Arguments \<Rightarrow> Error + 'val Arguments"
where
  "directive_loop [] dname on args = Inr args"
| "directive_loop (argument # rest) dname on args =
     (if truthy (get args (pa_name argument)) then
        raise (Error (''Multiple argument '' @ pa_name argument @ '' on directive '' @ dname
                      @ '' on '' @ on))
      else
        directive_loop rest dname on
          (args(pa_name argument \<mapsto>
             \<lparr>arg_name = pa_name argument, arg_value = pa_value argument\<rparr>)))"

definition directive :: "'val ParserDirective \<Rightarrow> string \<Rightarrow> Error + 'val Directive" where
  "directive d on =
     andThen (directive_loop (orEmpty (pd_arguments d)) (pd_name d) on Map.empty)
       (\<lambda>args. Inr \<lparr>dir_name = pd_name d, dir_arguments = args\<rparr>)"

definition directives ::
  "'val ParserDirective list option \<Rightarrow> string \<Rightarrow> Error + 'val Directive list" where
  "directives ds on = mapRaise (\<lambda>d. directive d on) (orEmpty ds)"

fun inputValuesDefinition_loop ::
  "('ty, 'val) ParserArgumentsDefinition \<Rightarrow> string \<Rightarrow> ('ty, 'val) ArgumentsDefinition
     \<Rightarrow> Error + ('ty, 'val) ArgumentsDefinition"
where
  "inputValuesDefinition_loop [] on result = Inr result"
| "inputValuesDefinition_loop (argumentDefinition # rest) on result =
     (if truthy (get result (piv_name argumentDefinition)) then
        raise (Error (''Multiple argument '' @ piv_name argumentDefinition @ '' on '' @ on))
      else
        andThen (directives (piv_directives argumentDefinition) (''argument on '' @ on))
          (\<lambda>ds. inputValuesDefinition_loop rest on
             (result(piv_name argumentDefinition \<mapsto>
                \<lparr>ivd_name = piv_name argumentDefinition,
                 ivd_description = piv_description argumentDefinition,
                 ivd_type = piv_type argumentDefinition,
                 ivd_defaultValue = piv_defaultValue argumentDefinition,
                 ivd_directives = ds\<rparr>))))"

definition inputValuesDefinition ::
  "('ty, 'val) ParserArgumentsDefinition option \<Rightarrow> string
     \<Rightarrow> Error + ('ty, 'val) ArgumentsDefinition" where
  "inputValuesDefinition def on = inputValuesDefinition_loop (orEmpty def) on Map.empty"

definition fieldDefinition ::
  "('ty, 'val) ParserFieldDefinition \<Rightarrow> string \<Rightarrow> Error + ('ty, 'val) FieldDefinition" where
  "fieldDefinition def on =
     andThen (inputValuesDefinition (pfd_argumentsDefinition def) on) (\<lambda>args.
     andThen (directives (pfd_directives def) on) (\<lambda>ds.
     Inr \<lparr>fd_description = pfd_description def,
          fd_name = pfd_name def,
          fd_argumentsDefinition = args,
          fd_directives = ds,
          fd_type = pfd_type def\<rparr>))"

fun fieldsDefinition_loop ::
  "('ty, 'val) ParserFieldsDefinition \<Rightarrow> string \<Rightarrow> ('ty, 'val) FieldsDefinition
     \<Rightarrow> Error + ('ty, 'val) FieldsDefinition"
where
  "fieldsDefinition_loop [] on result = Inr result"
| "fieldsDefinition_loop (fd # rest) on result =
     (if truthy (get result (pfd_name fd)) then
        raise (Error (''Multiple field definition on '' @ on))
      else
        andThen (fieldDefinition fd (''field '' @ pfd_name fd @ '' on '' @ on))
          (\<lambda>f. fieldsDefinition_loop rest on (result(pfd_name fd \<mapsto> f))))"

definition fieldsDefinition ::
  "('ty, 'val) ParserFieldsDefinition \<Rightarrow> string \<Rightarrow> Error + ('ty, 'val) FieldsDefinition" where
  "fieldsDefinition def on = fieldsDefinition_loop def on Map.empty"

text \<open>\<^verbatim>\<open>new Set(strs).size !== strs.length\<close>\<close>

definition noDuplicate :: "string list \<Rightarrow> string \<Rightarrow> Error + string list" where
  "noDuplicate strs on =
     (if card (set strs) \<noteq> length strs then raise (Error (''Duplicate '' @ on))
      else Inr strs)"

subsection \<open>Schema definition and extension\<close>

text \<open>The loop over \<^verbatim>\<open>rootOperationTypeDefinitions\<close>, written out twice in the source
  (in \<^verbatim>\<open>schemaDefinition\<close> and in \<^verbatim>\<open>schemaExtension\<close>) with the same text.\<close>

fun rootOperationTypeDefinitions_loop ::
  "RootOperationTypeDefinition list \<Rightarrow> (OperationType \<rightharpoonup> string)
     \<Rightarrow> Error + (OperationType \<rightharpoonup> string)"
where
  "rootOperationTypeDefinitions_loop [] rots = Inr rots"
| "rootOperationTypeDefinitions_loop (r # rest) rots =
     (if truthyString (rots (rotd_operationType r)) then
        raise (Error (''Multiple RootOperationTypeDefinition for ''
                      @ OperationType_string (rotd_operationType r)))
      else
        rootOperationTypeDefinitions_loop rest (rots(rotd_operationType r \<mapsto> rotd_type r)))"

definition schemaDefinition ::
  "'val SchemaDefinition \<Rightarrow> ('ty, 'val) SchemaContext \<Rightarrow> Error + ('ty, 'val) SchemaContext"
where
  "schemaDefinition def context =
     (if ctx_rootOperationTypes context \<noteq> None then
        raise (Error ''Multiple SchemaDefinition'')
      else
        andThen (rootOperationTypeDefinitions_loop (sd_rootOperationTypeDefinitions def)
                   Map.empty) (\<lambda>rots.
        andThen (directives (sd_directives def) ''schema definition'') (\<lambda>ds.
        Inr (context\<lparr>ctx_rootOperationTypes := Some rots,
                      ctx_description := sd_description def,
                      ctx_schemaDirectives := ctx_schemaDirectives context @ ds\<rparr>))))"

definition schemaExtension ::
  "'val SchemaExtension \<Rightarrow> ('ty, 'val) SchemaContext \<Rightarrow> Error + ('ty, 'val) SchemaContext"
where
  "schemaExtension def context =
     andThen (rootOperationTypeDefinitions_loop (orEmpty (se_rootOperationTypeDefinitions def))
                (case ctx_rootOperationTypes context of None \<Rightarrow> Map.empty
                 | Some rots \<Rightarrow> rots)) (\<lambda>rots.
     andThen (directives (se_directives def) ''schema definition'') (\<lambda>ds.
     Inr (context\<lparr>ctx_rootOperationTypes := Some rots,
                   ctx_schemaDirectives := ctx_schemaDirectives context @ ds\<rparr>)))"

subsection \<open>Directive definitions\<close>

fun directiveDefinition_loop ::
  "DirectiveLocation list \<Rightarrow> string \<Rightarrow> DirectiveLocation set \<Rightarrow> Error + DirectiveLocation set"
where
  "directiveDefinition_loop [] dname locations = Inr locations"
| "directiveDefinition_loop (directiveLocation # rest) dname locations =
     (if directiveLocation \<in> locations then
        raise (Error (''Multiple DirectiveLocation '' @ DirectiveLocation_string directiveLocation
                      @ '' for directive '' @ dname))
      else directiveDefinition_loop rest dname (insert directiveLocation locations))"

definition directiveDefinition ::
  "('ty, 'val) ParserDirectiveDefinition \<Rightarrow> ('ty, 'val) SchemaContext
     \<Rightarrow> Error + ('ty, 'val) SchemaContext"
where
  "directiveDefinition def context =
     (if truthy (get (ctx_directiveDefinitions context) (pdd_name def)) then
        raise (Error (''Multiple DirectiveDefinition for '' @ pdd_name def))
      else
        andThen (inputValuesDefinition (pdd_argumentsDefinition def)
                   (''directive '' @ pdd_name def)) (\<lambda>args.
        andThen (directiveDefinition_loop (pdd_directiveLocations def) (pdd_name def) {})
          (\<lambda>locations.
        Inr (context\<lparr>ctx_directiveDefinitions := (ctx_directiveDefinitions context)
               (pdd_name def \<mapsto>
                  \<lparr>dd_description = pdd_description def,
                   dd_locations = locations,
                   dd_name = pdd_name def,
                   dd_repeatable = pdd_repeatable def,
                   dd_argumentsDefinition = args\<rparr>)\<rparr>))))"

subsection \<open>Type definitions\<close>

text \<open>Each builder stores one entry in \<^verbatim>\<open>context.typeDefinitions\<close>.\<close>

definition store ::
  "('ty, 'val) SchemaContext \<Rightarrow> ('ty, 'val) TypeDefinition \<Rightarrow> ('ty, 'val) SchemaContext" where
  "store context td =
     context\<lparr>ctx_typeDefinitions := (ctx_typeDefinitions context)(td_name td \<mapsto> td)\<rparr>"

definition scalarTypeDefinition ::
  "('ty, 'val) ParserTypeDefinition \<Rightarrow> ('ty, 'val) SchemaContext
     \<Rightarrow> Error + ('ty, 'val) SchemaContext"
where
  "scalarTypeDefinition def context =
     andThen (directives (ptd_directives def) (''type '' @ ptd_name def @ '' definition''))
       (\<lambda>ds.
     Inr (store context
            \<lparr>td_name = ptd_name def, td_description = ptd_description def,
             td_directives = ds, td_type = scalar\<rparr>))"

definition objectTypeDefinition ::
  "('ty, 'val) ParserTypeDefinition \<Rightarrow> string list option
     \<Rightarrow> ('ty, 'val) ParserFieldsDefinition option \<Rightarrow> ('ty, 'val) SchemaContext
     \<Rightarrow> Error + ('ty, 'val) SchemaContext"
where
  "objectTypeDefinition def implementsInterfaces fieldsDef context =
     andThen (directives (ptd_directives def) (''type '' @ ptd_name def @ '' definition''))
       (\<lambda>ds.
     andThen (noDuplicate (orEmpty implementsInterfaces)
                (''implements on type '' @ template (ptd_description def))) (\<lambda>impl.
     andThen (case fieldsDef of
                None \<Rightarrow> Inr Map.empty
              | Some d \<Rightarrow> fieldsDefinition d (''type '' @ ptd_name def @ '' definition''))
       (\<lambda>fs.
     Inr (store context
            \<lparr>td_name = ptd_name def, td_description = ptd_description def,
             td_directives = ds, td_type = object impl fs\<rparr>))))"

definition interfaceTypeDefinition ::
  "('ty, 'val) ParserTypeDefinition \<Rightarrow> string list option
     \<Rightarrow> ('ty, 'val) ParserFieldsDefinition option \<Rightarrow> ('ty, 'val) SchemaContext
     \<Rightarrow> Error + ('ty, 'val) SchemaContext"
where
  "interfaceTypeDefinition def implementsInterfaces fieldsDef context =
     andThen (directives (ptd_directives def) (''type '' @ ptd_name def @ '' definition''))
       (\<lambda>ds.
     andThen (noDuplicate (orEmpty implementsInterfaces)
                (''implements on type '' @ template (ptd_description def))) (\<lambda>impl.
     andThen (case fieldsDef of
                None \<Rightarrow> Inr Map.empty
              | Some d \<Rightarrow> fieldsDefinition d (''type '' @ ptd_name def @ '' definition''))
       (\<lambda>fs.
     Inr (store context
            \<lparr>td_name = ptd_name def, td_description = ptd_description def,
             td_directives = ds, td_type = interface impl fs\<rparr>))))"

definition unionTypeDefinition ::
  "('ty, 'val) ParserTypeDefinition \<Rightarrow> string list option \<Rightarrow> ('ty, 'val) SchemaContext
     \<Rightarrow> Error + ('ty, 'val) SchemaContext"
where
  "unionTypeDefinition def unionMemberTypes context =
     andThen (directives (ptd_directives def) (''type '' @ ptd_name def @ '' definition''))
       (\<lambda>ds.
     andThen (noDuplicate (orEmpty unionMemberTypes)
                (''type '' @ ptd_name def @ '' definition'')) (\<lambda>members.
     Inr (store context
            \<lparr>td_name = ptd_name def, td_description = ptd_description def,
             td_directives = ds, td_type = union members\<rparr>)))"

fun enumTypeDefinition_loop ::
  "'val ParserEnumValueDefinition list \<Rightarrow> string \<Rightarrow> 'val EnumValuesDefinition
     \<Rightarrow> Error + 'val EnumValuesDefinition"
where
  "enumTypeDefinition_loop [] tname enumValuesDefinition = Inr enumValuesDefinition"
| "enumTypeDefinition_loop (ev # rest) tname enumValuesDefinition =
     (if truthy (get enumValuesDefinition (pev_enumValue ev)) then
        raise (Error (''Duplicate enum value '' @ pev_enumValue ev @ '' on '' @ tname
                      @ '' definition''))
      else
        andThen (directives (pev_directives ev) (''type '' @ tname @ '' definition''))
          (\<lambda>ds. enumTypeDefinition_loop rest tname
             (enumValuesDefinition(pev_enumValue ev \<mapsto>
                \<lparr>evd_name = pev_enumValue ev, evd_description = pev_description ev,
                 evd_directives = ds\<rparr>))))"

definition enumTypeDefinition ::
  "('ty, 'val) ParserTypeDefinition \<Rightarrow> 'val ParserEnumValueDefinition list option
     \<Rightarrow> ('ty, 'val) SchemaContext \<Rightarrow> Error + ('ty, 'val) SchemaContext"
where
  "enumTypeDefinition def enumValues context =
     andThen (enumTypeDefinition_loop (orEmpty enumValues) (ptd_name def) Map.empty)
       (\<lambda>enumValuesDefinition.
     andThen (directives (ptd_directives def) (''type '' @ ptd_name def @ '' definition''))
       (\<lambda>ds.
     Inr (store context
            \<lparr>td_name = ptd_name def, td_description = ptd_description def,
             td_directives = ds, td_type = enum enumValuesDefinition\<rparr>)))"

definition inputObjectTypeDefinition ::
  "('ty, 'val) ParserTypeDefinition \<Rightarrow> ('ty, 'val) ParserArgumentsDefinition option
     \<Rightarrow> ('ty, 'val) SchemaContext \<Rightarrow> Error + ('ty, 'val) SchemaContext"
where
  "inputObjectTypeDefinition def inputFields context =
     andThen (directives (ptd_directives def) (''type '' @ ptd_name def @ '' definition''))
       (\<lambda>ds.
     andThen (inputValuesDefinition inputFields (''type '' @ ptd_name def @ '' definition''))
       (\<lambda>inputFieldsDefinition.
     Inr (store context
            \<lparr>td_name = ptd_name def, td_description = ptd_description def,
             td_directives = ds, td_type = inputObject inputFieldsDefinition\<rparr>)))"

definition typeDefinition ::
  "('ty, 'val) ParserTypeDefinition \<Rightarrow> ('ty, 'val) SchemaContext
     \<Rightarrow> Error + ('ty, 'val) SchemaContext"
where
  "typeDefinition def context =
     (if truthy (get (ctx_typeDefinitions context) (ptd_name def)) then
        raise (Error (''Multiple TypeDefinition for '' @ ptd_name def))
      else
        (case ptd_typeType def of
           typeType_scalar \<Rightarrow> scalarTypeDefinition def context
         | typeType_object impl fds \<Rightarrow> objectTypeDefinition def impl fds context
         | typeType_interface impl fds \<Rightarrow> interfaceTypeDefinition def impl fds context
         | typeType_union members \<Rightarrow> unionTypeDefinition def members context
         | typeType_enum evs \<Rightarrow> enumTypeDefinition def evs context
         | typeType_inputObject ifs \<Rightarrow> inputObjectTypeDefinition def ifs context))"

definition typeSystemDefinition ::
  "('ty, 'val) TypeSystemDefinition \<Rightarrow> ('ty, 'val) SchemaContext
     \<Rightarrow> Error + ('ty, 'val) SchemaContext"
where
  "typeSystemDefinition def context =
     (case def of
        definitionType_schema d \<Rightarrow> schemaDefinition d context
      | definitionType_directive d \<Rightarrow> directiveDefinition d context
      | definitionType_type d \<Rightarrow> typeDefinition d context)"

subsection \<open>Type extensions\<close>

text \<open>
  Each function receives the extension and the existing definition, throws when the
  definition's tag is not its own, and otherwise mutates the definition; here it returns
  the mutated definition. The string \<^verbatim>\<open>definition.type\<close> that two of the messages
  interpolate is the document entry's discriminant, \<^verbatim>\<open>typeSystem\<close>.
\<close>

definition differentType :: "('ty, 'val) TypeExtension \<Rightarrow> Error" where
  "differentType def = Error (''Type extension for type with different type '' @ te_name def)"

definition scalarTypeExtension ::
  "('ty, 'val) TypeExtension \<Rightarrow> ('ty, 'val) TypeDefinition \<Rightarrow> Error + ('ty, 'val) TypeDefinition"
where
  "scalarTypeExtension def td =
     (case td_type td of
        scalar \<Rightarrow>
          andThen (directives (te_directives def) (''type '' @ te_name def @ '' extension''))
            (\<lambda>ds. Inr (td\<lparr>td_directives := td_directives td @ ds\<rparr>))
      | _ \<Rightarrow> raise (differentType def))"

fun objectTypeExtension_loop ::
  "('ty, 'val) ParserFieldsDefinition \<Rightarrow> ('ty, 'val) FieldsDefinition
     \<Rightarrow> Error + ('ty, 'val) FieldsDefinition"
where
  "objectTypeExtension_loop [] fs = Inr fs"
| "objectTypeExtension_loop (fd # rest) fs =
     (if truthy (get fs (pfd_name fd)) then
        raise (Error ''Multiple field definition on type typeSystem extension'')
      else
        andThen (fieldDefinition fd
                   (''field '' @ pfd_name fd @ '' on type typeSystem extension''))
          (\<lambda>f. objectTypeExtension_loop rest (fs(pfd_name fd \<mapsto> f))))"

definition objectTypeExtension ::
  "('ty, 'val) TypeExtension \<Rightarrow> string list option \<Rightarrow> ('ty, 'val) ParserFieldsDefinition option
     \<Rightarrow> ('ty, 'val) TypeDefinition \<Rightarrow> Error + ('ty, 'val) TypeDefinition"
where
  "objectTypeExtension def implementsInterfaces fieldsDef td =
     (case td_type td of
        object impl fs \<Rightarrow>
          andThen (noDuplicate (impl @ orEmpty implementsInterfaces)
                     (''implements on type '' @ te_name def @ '' extension'')) (\<lambda>impl'.
          andThen (objectTypeExtension_loop (orEmpty fieldsDef) fs) (\<lambda>fs'.
          andThen (directives (te_directives def) (''type '' @ te_name def @ '' extension''))
            (\<lambda>ds.
          Inr (td\<lparr>td_type := object impl' fs',
                   td_directives := td_directives td @ ds\<rparr>))))
      | _ \<Rightarrow> raise (differentType def))"

fun interfaceTypeExtension_loop ::
  "('ty, 'val) ParserFieldsDefinition \<Rightarrow> ('ty, 'val) FieldsDefinition
     \<Rightarrow> Error + ('ty, 'val) FieldsDefinition"
where
  "interfaceTypeExtension_loop [] fs = Inr fs"
| "interfaceTypeExtension_loop (fd # rest) fs =
     (if truthy (get fs (pfd_name fd)) then
        raise (Error ''Multiple field definition on type typeSystem extension'')
      else
        andThen (fieldDefinition fd
                   (''field '' @ pfd_name fd @ '' on type typeSystem extension''))
          (\<lambda>f. interfaceTypeExtension_loop rest (fs(pfd_name fd \<mapsto> f))))"

definition interfaceTypeExtension ::
  "('ty, 'val) TypeExtension \<Rightarrow> string list option \<Rightarrow> ('ty, 'val) ParserFieldsDefinition option
     \<Rightarrow> ('ty, 'val) TypeDefinition \<Rightarrow> Error + ('ty, 'val) TypeDefinition"
where
  "interfaceTypeExtension def implementsInterfaces fieldsDef td =
     (case td_type td of
        interface impl fs \<Rightarrow>
          andThen (noDuplicate (impl @ orEmpty implementsInterfaces)
                     (''implements on type '' @ te_name def @ '' extension'')) (\<lambda>impl'.
          andThen (interfaceTypeExtension_loop (orEmpty fieldsDef) fs) (\<lambda>fs'.
          andThen (directives (te_directives def) (''type '' @ te_name def @ '' extension''))
            (\<lambda>ds.
          Inr (td\<lparr>td_type := interface impl' fs',
                   td_directives := td_directives td @ ds\<rparr>))))
      | _ \<Rightarrow> raise (differentType def))"

definition unionTypeExtension ::
  "('ty, 'val) TypeExtension \<Rightarrow> string list option \<Rightarrow> ('ty, 'val) TypeDefinition
     \<Rightarrow> Error + ('ty, 'val) TypeDefinition"
where
  "unionTypeExtension def unionMemberTypes td =
     (case td_type td of
        union members \<Rightarrow>
          andThen (directives (te_directives def) (''type '' @ te_name def @ '' extension''))
            (\<lambda>ds.
          andThen (noDuplicate (members @ orEmpty unionMemberTypes)
                     (''type '' @ te_name def @ '' extension'')) (\<lambda>members'.
          Inr (td\<lparr>td_directives := td_directives td @ ds,
                   td_type := union members'\<rparr>)))
      | _ \<Rightarrow> raise (differentType def))"

fun enumTypeExtension_loop ::
  "'val ParserEnumValueDefinition list \<Rightarrow> string \<Rightarrow> 'val EnumValuesDefinition
     \<Rightarrow> Error + 'val EnumValuesDefinition"
where
  "enumTypeExtension_loop [] tname enumValuesDefinition = Inr enumValuesDefinition"
| "enumTypeExtension_loop (ev # rest) tname enumValuesDefinition =
     (if truthy (get enumValuesDefinition (pev_enumValue ev)) then
        raise (Error (''Duplicate enum value '' @ pev_enumValue ev @ '' on '' @ tname
                      @ '' extension''))
      else
        andThen (directives (pev_directives ev) (''type '' @ tname @ '' extension''))
          (\<lambda>ds. enumTypeExtension_loop rest tname
             (enumValuesDefinition(pev_enumValue ev \<mapsto>
                \<lparr>evd_name = pev_enumValue ev, evd_description = pev_description ev,
                 evd_directives = ds\<rparr>))))"

definition enumTypeExtension ::
  "('ty, 'val) TypeExtension \<Rightarrow> 'val ParserEnumValueDefinition list option
     \<Rightarrow> ('ty, 'val) TypeDefinition \<Rightarrow> Error + ('ty, 'val) TypeDefinition"
where
  "enumTypeExtension def enumValues td =
     (case td_type td of
        enum enumValuesDefinition \<Rightarrow>
          andThen (enumTypeExtension_loop (orEmpty enumValues) (te_name def)
                     enumValuesDefinition) (\<lambda>enumValuesDefinition'.
          andThen (directives (te_directives def) (''type '' @ te_name def @ '' extension''))
            (\<lambda>ds.
          Inr (td\<lparr>td_type := enum enumValuesDefinition',
                   td_directives := td_directives td @ ds\<rparr>)))
      | _ \<Rightarrow> raise (differentType def))"

fun inputObjectTypeExtension_loop ::
  "('ty, 'val) ParserArgumentsDefinition \<Rightarrow> string \<Rightarrow> ('ty, 'val) ArgumentsDefinition
     \<Rightarrow> Error + ('ty, 'val) ArgumentsDefinition"
where
  "inputObjectTypeExtension_loop [] tname inputFieldsDefinition = Inr inputFieldsDefinition"
| "inputObjectTypeExtension_loop (argumentDefinition # rest) tname inputFieldsDefinition =
     (if truthy (get inputFieldsDefinition (piv_name argumentDefinition)) then
        raise (Error (''Multiple argument '' @ piv_name argumentDefinition @ '' on type ''
                      @ tname @ '' extension''))
      else
        andThen (directives (piv_directives argumentDefinition)
                   (''argument on type '' @ tname @ '' extension''))
          (\<lambda>ds. inputObjectTypeExtension_loop rest tname
             (inputFieldsDefinition(piv_name argumentDefinition \<mapsto>
                \<lparr>ivd_name = piv_name argumentDefinition,
                 ivd_description = piv_description argumentDefinition,
                 ivd_type = piv_type argumentDefinition,
                 ivd_defaultValue = piv_defaultValue argumentDefinition,
                 ivd_directives = ds\<rparr>))))"

definition inputObjectTypeExtension ::
  "('ty, 'val) TypeExtension \<Rightarrow> ('ty, 'val) ParserArgumentsDefinition option
     \<Rightarrow> ('ty, 'val) TypeDefinition \<Rightarrow> Error + ('ty, 'val) TypeDefinition"
where
  "inputObjectTypeExtension def inputFields td =
     (case td_type td of
        inputObject inputFieldsDefinition \<Rightarrow>
          andThen (inputObjectTypeExtension_loop (orEmpty inputFields) (te_name def)
                     inputFieldsDefinition) (\<lambda>inputFieldsDefinition'.
          andThen (directives (te_directives def) (''type '' @ te_name def @ '' extension''))
            (\<lambda>ds.
          Inr (td\<lparr>td_type := inputObject inputFieldsDefinition',
                   td_directives := td_directives td @ ds\<rparr>)))
      | _ \<Rightarrow> raise (differentType def))"

text \<open>
  \<^verbatim>\<open>typeExtension\<close> reads \<^verbatim>\<open>context.typeDefinitions[definition.name]\<close>. A value inherited
  from \<^verbatim>\<open>Object.prototype\<close> is truthy and has no property \<^verbatim>\<open>type\<close>, so whichever of the
  six functions receives it throws at its first test. The definition found is the object
  stored under that name, so its mutation is an update of that entry.
\<close>

definition typeExtension ::
  "('ty, 'val) TypeExtension \<Rightarrow> ('ty, 'val) SchemaContext \<Rightarrow> Error + ('ty, 'val) SchemaContext"
where
  "typeExtension def context =
     (case get (ctx_typeDefinitions context) (te_name def) of
        Absent \<Rightarrow>
          raise (Error (''Type extension before type definition for type '' @ te_name def))
      | Inherited \<Rightarrow> raise (differentType def)
      | Own td \<Rightarrow>
          andThen
            (case te_typeType def of
               typeType_scalar \<Rightarrow> scalarTypeExtension def td
             | typeType_object impl fds \<Rightarrow> objectTypeExtension def impl fds td
             | typeType_interface impl fds \<Rightarrow> interfaceTypeExtension def impl fds td
             | typeType_union members \<Rightarrow> unionTypeExtension def members td
             | typeType_enum evs \<Rightarrow> enumTypeExtension def evs td
             | typeType_inputObject ifs \<Rightarrow> inputObjectTypeExtension def ifs td)
            (\<lambda>td'. Inr (context\<lparr>ctx_typeDefinitions :=
                                   (ctx_typeDefinitions context)(te_name def \<mapsto> td')\<rparr>)))"

definition typeSystemExtension ::
  "('ty, 'val) TypeSystemExtension \<Rightarrow> ('ty, 'val) SchemaContext
     \<Rightarrow> Error + ('ty, 'val) SchemaContext"
where
  "typeSystemExtension def context =
     (case def of
        extensionType_schema d \<Rightarrow> schemaExtension d context
      | extensionType_type d \<Rightarrow> typeExtension d context)"

subsection \<open>The traversal\<close>

definition typeSystem ::
  "('ty, 'val) TypeSystemDefinitionOrExtension \<Rightarrow> ('ty, 'val) SchemaContext
     \<Rightarrow> Error + ('ty, 'val) SchemaContext"
where
  "typeSystem def context =
     (case def of
        subType_definition d \<Rightarrow> typeSystemDefinition d context
      | subType_extension d \<Rightarrow> typeSystemExtension d context)"

fun schema_loop ::
  "('ty, 'val) Document \<Rightarrow> ('ty, 'val) SchemaContext \<Rightarrow> Error + ('ty, 'val) SchemaContext"
where
  "schema_loop [] context = Inr context"
| "schema_loop (def # rest) context =
     (case def of
        type_typeSystem d \<Rightarrow> andThen (typeSystem d context) (schema_loop rest)
      | type_executable d \<Rightarrow> raise (Error ''ExecutableDocument in Schema''))"

definition initialContext :: "('ty, 'val) SchemaContext" where
  "initialContext =
     \<lparr>ctx_description = None, ctx_rootOperationTypes = None, ctx_schemaDirectives = [],
      ctx_directiveDefinitions = Map.empty, ctx_typeDefinitions = Map.empty\<rparr>"

definition schema :: "('ty, 'val) Document \<Rightarrow> Error + ('ty, 'val) Schema" where
  "schema document =
     andThen (schema_loop document initialContext) (\<lambda>context.
     Inr \<lparr>description = ctx_description context,
          rootOperationTypes =
            (case ctx_rootOperationTypes context of None \<Rightarrow> Map.empty | Some rots \<Rightarrow> rots),
          schemaDirectives = ctx_schemaDirectives context,
          directiveDefinitions = ctx_directiveDefinitions context,
          typeDefinitions = ctx_typeDefinitions context\<rparr>)"

text \<open>\<^verbatim>\<open>analyzeSchema\<close> catches the \<^verbatim>\<open>ParseError\<close> and returns the error it carries;
  the result is the union \<^verbatim>\<open>Schema | Error\<close>, \<open>Inl\<close> for the value with \<^verbatim>\<open>isError: true\<close>.\<close>

definition analyzeSchema :: "('ty, 'val) Document \<Rightarrow> Error + ('ty, 'val) Schema" where
  "analyzeSchema document =
     (case schema document of Inl e \<Rightarrow> Inl e | Inr s \<Rightarrow> Inr s)"

subsection \<open>Executable documents\<close>

definition executable ::
  "ExecutableDefinition \<Rightarrow> ('frag, 'op) OperationContext \<Rightarrow> Error + ('frag, 'op) OperationContext"
where
  "executable def context =
     (case def of subType_fragment \<Rightarrow> Inr context | subType_operation \<Rightarrow> Inr context)"

fun operation_loop ::
  "('ty, 'val) Document \<Rightarrow> ('frag, 'op) OperationContext
     \<Rightarrow> Error + ('frag, 'op) OperationContext"
where
  "operation_loop [] context = Inr context"
| "operation_loop (def # rest) context =
     (case def of
        type_typeSystem d \<Rightarrow> raise (Error ''TypeSystemDefinitionOrExtension in Operation'')
      | type_executable d \<Rightarrow> andThen (executable d context) (operation_loop rest))"

definition operation :: "('ty, 'val) Document \<Rightarrow> Error + ('frag, 'op) Operation" where
  "operation document =
     andThen (operation_loop document \<lparr>oc_fragments = Map.empty, oc_operations = Map.empty\<rparr>)
       (\<lambda>context. Inr \<lparr>fragments = oc_fragments context,
                        operations = oc_operations context\<rparr>)"

definition analyzeOperation :: "('ty, 'val) Document \<Rightarrow> Error + ('frag, 'op) Operation" where
  "analyzeOperation document =
     (case operation document of Inl e \<Rightarrow> Inl e | Inr s \<Rightarrow> Inr s)"

subsection \<open>The superseded revision\<close>

text \<open>
  The sources also hold an earlier revision of the module (\<^verbatim>\<open>src/index.ts\<close>), in which
  \<^verbatim>\<open>schema\<close> is one function with the switch statements nested in its loop. Its branches
  for a schema definition, a directive definition, a type definition and a type extension
  run the statements that the later revision moved, unchanged, into the functions
  above; they are modelled by those functions. The traversal differs in three places:
  a schema extension is rejected while no schema definition has been seen; the switch on
  \<^verbatim>\<open>definition.type\<close> has no case for an executable definition, which is skipped; and the
  result unwraps \<^verbatim>\<open>rootOperationTypes ?? { isError: true, message: "No SchemaDefinition" }\<close>.
\<close>

fun index_schema_loop ::
  "('ty, 'val) Document \<Rightarrow> ('ty, 'val) SchemaContext \<Rightarrow> Error + ('ty, 'val) SchemaContext"
where
  "index_schema_loop [] context = Inr context"
| "index_schema_loop (def # rest) context =
     (case def of
        type_typeSystem (subType_definition d) \<Rightarrow>
          andThen (typeSystemDefinition d context) (index_schema_loop rest)
      | type_typeSystem (subType_extension (extensionType_schema d)) \<Rightarrow>
          (if ctx_rootOperationTypes context = None then
             raise (Error ''SchemaExtension before SchemaDefinition'')
           else andThen (schemaExtension d context) (index_schema_loop rest))
      | type_typeSystem (subType_extension (extensionType_type d)) \<Rightarrow>
          andThen (typeExtension d context) (index_schema_loop rest)
      | type_executable d \<Rightarrow> index_schema_loop rest context)"

definition index_schema :: "('ty, 'val) Document \<Rightarrow> Error + ('ty, 'val) Schema" where
  "index_schema document =
     andThen (index_schema_loop document initialContext) (\<lambda>context.
     (case ctx_rootOperationTypes context of
        None \<Rightarrow> raise (Error ''No SchemaDefinition'')
      | Some rots \<Rightarrow>
          Inr \<lparr>description = ctx_description context,
               rootOperationTypes = rots,
               schemaDirectives = ctx_schemaDirectives context,
               directiveDefinitions = ctx_directiveDefinitions context,
               typeDefinitions = ctx_typeDefinitions context\<rparr>))"

definition index_analyzeSchema :: "('ty, 'val) Document \<Rightarrow> Error + ('ty, 'val) Schema" where
  "index_analyzeSchema document =
     (case index_schema document of Inl e \<Rightarrow> Inl e | Inr s \<Rightarrow> Inr s)"

subsection \<open>Notions used in the statements\<close>

text \<open>The test \<^verbatim>\<open>isError\<close> on a result.\<close>

definition isError :: "Error + 'a \<Rightarrow> bool" where
  "isError t = (case t of Inl e \<Rightarrow> True | Inr x \<Rightarrow> False)"

text \<open>The value of the tag \<^verbatim>\<open>type\<close> of a type definition, and of the discriminant
  \<^verbatim>\<open>typeType\<close> of a parsed definition or extension.\<close>

fun typeTag :: "('ty, 'val) kind \<Rightarrow> string" where
  "typeTag scalar = ''scalar''"
| "typeTag (object impl fs) = ''object''"
| "typeTag (interface impl fs) = ''interface''"
| "typeTag (union members) = ''union''"
| "typeTag (enum evs) = ''enum''"
| "typeTag (inputObject ifs) = ''inputObject''"

fun typeTypeTag :: "('ty, 'val) typeType \<Rightarrow> string" where
  "typeTypeTag typeType_scalar = ''scalar''"
| "typeTypeTag (typeType_object impl fds) = ''object''"
| "typeTypeTag (typeType_interface impl fds) = ''interface''"
| "typeTypeTag (typeType_union members) = ''union''"
| "typeTypeTag (typeType_enum evs) = ''enum''"
| "typeTypeTag (typeType_inputObject ifs) = ''inputObject''"

text \<open>The five type-system entries of a document, and the tests on an entry.\<close>

abbreviation schemaDefinitionEntry :: "'val SchemaDefinition \<Rightarrow> ('ty, 'val) DocumentEntry" where
  "schemaDefinitionEntry d \<equiv> type_typeSystem (subType_definition (definitionType_schema d))"

abbreviation directiveDefinitionEntry ::
  "('ty, 'val) ParserDirectiveDefinition \<Rightarrow> ('ty, 'val) DocumentEntry" where
  "directiveDefinitionEntry d \<equiv> type_typeSystem (subType_definition (definitionType_directive d))"

abbreviation typeDefinitionEntry ::
  "('ty, 'val) ParserTypeDefinition \<Rightarrow> ('ty, 'val) DocumentEntry" where
  "typeDefinitionEntry d \<equiv> type_typeSystem (subType_definition (definitionType_type d))"

abbreviation schemaExtensionEntry :: "'val SchemaExtension \<Rightarrow> ('ty, 'val) DocumentEntry" where
  "schemaExtensionEntry d \<equiv> type_typeSystem (subType_extension (extensionType_schema d))"

abbreviation typeExtensionEntry ::
  "('ty, 'val) TypeExtension \<Rightarrow> ('ty, 'val) DocumentEntry" where
  "typeExtensionEntry d \<equiv> type_typeSystem (subType_extension (extensionType_type d))"

fun isSchemaDefinition :: "('ty, 'val) DocumentEntry \<Rightarrow> bool" where
  "isSchemaDefinition (type_typeSystem (subType_definition (definitionType_schema d))) = True"
| "isSchemaDefinition d = False"

fun isSchemaExtension :: "('ty, 'val) DocumentEntry \<Rightarrow> bool" where
  "isSchemaExtension (type_typeSystem (subType_extension (extensionType_schema d))) = True"
| "isSchemaExtension d = False"

fun isExecutable :: "('ty, 'val) DocumentEntry \<Rightarrow> bool" where
  "isExecutable (type_executable d) = True"
| "isExecutable d = False"

fun isTypeSystem :: "('ty, 'val) DocumentEntry \<Rightarrow> bool" where
  "isTypeSystem (type_typeSystem d) = True"
| "isTypeSystem d = False"

text \<open>A result that is not the failure \<^verbatim>\<open>No SchemaDefinition\<close>.\<close>

definition notNoSchemaDefinition :: "Error + 'a \<Rightarrow> bool" where
  "notNoSchemaDefinition r \<longleftrightarrow> r \<noteq> Inl (Error ''No SchemaDefinition'')"

text \<open>The \<^verbatim>\<open>fieldsDefinition\<close> of a type definition, for the two kinds that have one.\<close>

definition td_fieldsDefinition ::
  "('ty, 'val) TypeDefinition \<Rightarrow> ('ty, 'val) FieldsDefinition option" where
  "td_fieldsDefinition td =
     (case td_type td of
        object impl fs \<Rightarrow> Some fs
      | interface impl fs \<Rightarrow> Some fs
      | _ \<Rightarrow> None)"

text \<open>The names of the fields an extension adds, and the error of the field loop of
  \<^verbatim>\<open>objectTypeExtension\<close>.\<close>

definition duplicateField :: Error where
  "duplicateField = Error ''Multiple field definition on type typeSystem extension''"

definition fieldNames :: "('ty, 'val) ParserFieldsDefinition option \<Rightarrow> string set" where
  "fieldNames fds = pfd_name ` set (orEmpty fds)"

subsection \<open>Example documents\<close>

text \<open>Parsed forms of the SDL fragments the specification names. A part the text leaves
  out is \<^verbatim>\<open>undefined\<close> in the node.\<close>

definition rotd :: "OperationType \<Rightarrow> string \<Rightarrow> RootOperationTypeDefinition" where
  "rotd op t = \<lparr>rotd_operationType = op, rotd_type = t\<rparr>"

definition parsedField :: "string \<Rightarrow> 'ty \<Rightarrow> ('ty, 'val) ParserFieldDefinition" where
  "parsedField n t =
     \<lparr>pfd_description = None, pfd_name = n, pfd_argumentsDefinition = None, pfd_type = t,
      pfd_directives = None\<rparr>"

text \<open>\<^verbatim>\<open>schema { query: Query }\<close>\<close>

definition schema_query_Query :: "'val SchemaDefinition" where
  "schema_query_Query =
     \<lparr>sd_description = None, sd_rootOperationTypeDefinitions = [rotd Query ''Query''],
      sd_directives = None\<rparr>"

text \<open>\<^verbatim>\<open>extend schema { mutation: M }\<close>\<close>

definition extend_schema_mutation_M :: "'val SchemaExtension" where
  "extend_schema_mutation_M =
     \<lparr>se_rootOperationTypeDefinitions = Some [rotd Mutation ''M''], se_directives = None\<rparr>"

text \<open>\<^verbatim>\<open>type Query { hello: String }\<close>, for a parsed type node \<open>t\<close> of \<^verbatim>\<open>String\<close>\<close>

definition type_Query_hello :: "'ty \<Rightarrow> ('ty, 'val) ParserTypeDefinition" where
  "type_Query_hello t =
     \<lparr>ptd_name = ''Query'', ptd_description = None, ptd_directives = None,
      ptd_typeType = typeType_object None (Some [parsedField ''hello'' t])\<rparr>"

text \<open>\<^verbatim>\<open>scalar Foo\<close> and \<^verbatim>\<open>extend scalar Foo\<close>\<close>

definition scalar_Foo :: "('ty, 'val) ParserTypeDefinition" where
  "scalar_Foo =
     \<lparr>ptd_name = ''Foo'', ptd_description = None, ptd_directives = None,
      ptd_typeType = typeType_scalar\<rparr>"

definition extend_scalar :: "string \<Rightarrow> ('ty, 'val) TypeExtension" where
  "extend_scalar n = \<lparr>te_name = n, te_directives = None, te_typeType = typeType_scalar\<rparr>"

text \<open>\<^verbatim>\<open>type Foo implements A & A\<close>, \<^verbatim>\<open>type Foo implements A\<close> and
  \<^verbatim>\<open>extend type Foo implements A\<close>\<close>

definition type_Foo_implements :: "string list \<Rightarrow> ('ty, 'val) ParserTypeDefinition" where
  "type_Foo_implements is =
     \<lparr>ptd_name = ''Foo'', ptd_description = None, ptd_directives = None,
      ptd_typeType = typeType_object (Some is) None\<rparr>"

definition extend_type_Foo_implements :: "string list \<Rightarrow> ('ty, 'val) TypeExtension" where
  "extend_type_Foo_implements is =
     \<lparr>te_name = ''Foo'', te_directives = None, te_typeType = typeType_object (Some is) None\<rparr>"

text \<open>The definition built from \<^verbatim>\<open>type Foo { a: T }\<close>, and \<^verbatim>\<open>extend type Foo\<close> adding
  the fields named.\<close>

definition Foo_a :: "'ty \<Rightarrow> ('ty, 'val) TypeDefinition" where
  "Foo_a t =
     \<lparr>td_name = ''Foo'', td_description = None, td_directives = [],
      td_type = object []
        [''a'' \<mapsto> \<lparr>fd_description = None, fd_name = ''a'', fd_argumentsDefinition = Map.empty,
                   fd_directives = [], fd_type = t\<rparr>]\<rparr>"

definition extend_type_Foo :: "string list \<Rightarrow> 'ty \<Rightarrow> ('ty, 'val) TypeExtension" where
  "extend_type_Foo ns t =
     \<lparr>te_name = ''Foo'', te_directives = None,
      te_typeType = typeType_object None (Some (map (\<lambda>n. parsedField n t) ns))\<rparr>"

text \<open>\<^verbatim>\<open>type Foo { a: T }\<close>, for a parsed type node \<open>t\<close> of \<^verbatim>\<open>T\<close>\<close>

definition type_Foo_a :: "'ty \<Rightarrow> ('ty, 'val) ParserTypeDefinition" where
  "type_Foo_a t =
     \<lparr>ptd_name = ''Foo'', ptd_description = None, ptd_directives = None,
      ptd_typeType = typeType_object None (Some [parsedField ''a'' t])\<rparr>"

section \<open>Properties\<close>

subsection \<open>Sequencing\<close>

lemma andThen_Inl [simp]: "andThen (Inl e) f = Inl e"
  by (simp add: andThen_def)

lemma andThen_Inr [simp]: "andThen (Inr x) f = f x"
  by (simp add: andThen_def)

lemma andThen_raise [simp]: "andThen (raise e) f = Inl e"
  by (simp add: raise_def)

lemma raise_eq [simp]: "raise e = Inl e' \<longleftrightarrow> e = e'" "raise e \<noteq> Inr x"
  by (simp_all add: raise_def)

lemma andThen_eq_Inr: "andThen r f = Inr y \<longleftrightarrow> (\<exists>x. r = Inr x \<and> f x = Inr y)"
  by (cases r) simp_all

lemma isError_simps [simp]: "isError (Inl e)" "\<not> isError (Inr x)" "isError (raise e)"
  by (simp_all add: isError_def raise_def)

lemma noDuplicate_eq: "noDuplicate strs on = (if distinct strs then Inr strs else Inl (Error (''Duplicate '' @ on)))"
  by (auto simp: noDuplicate_def raise_def distinct_card dest: card_distinct)

subsection \<open>The traversal stops at the first failure\<close>

lemma schema_loop_append:
  "schema_loop (xs @ ys) c = andThen (schema_loop xs c) (schema_loop ys)"
proof (induction xs arbitrary: c)
  case Nil show ?case by simp
next
  case (Cons d xs)
  show ?case
  proof (cases d)
    case (type_typeSystem t)
    then show ?thesis using Cons.IH by (cases "typeSystem t c") simp_all
  next
    case (type_executable e)
    then show ?thesis by simp
  qed
qed

subsection \<open>The loop over the root operation types\<close>

lemma root_loop_keeps:
  "rootOperationTypeDefinitions_loop rs m = Inr m' \<Longrightarrow> m op = Some t \<Longrightarrow> t \<noteq> [] \<Longrightarrow> m' op = Some t"
proof (induction rs arbitrary: m)
  case Nil then show ?case by simp
next
  case (Cons r rs)
  from Cons.prems(1) have nt: "\<not> truthyString (m (rotd_operationType r))"
    and rest: "rootOperationTypeDefinitions_loop rs (m(rotd_operationType r \<mapsto> rotd_type r)) = Inr m'"
    by (simp_all split: if_splits)
  from nt Cons.prems(2,3) have "rotd_operationType r \<noteq> op"
    by (auto simp: truthyString_def)
  then have "(m(rotd_operationType r \<mapsto> rotd_type r)) op = Some t"
    using Cons.prems(2) by simp
  from Cons.IH [OF rest this Cons.prems(3)] show ?case .
qed

lemma root_loop_succeeds:
  "distinct (map rotd_operationType rs) \<Longrightarrow>
   \<forall>r\<in>set rs. \<not> truthyString (m (rotd_operationType r)) \<Longrightarrow>
   \<exists>m'. rootOperationTypeDefinitions_loop rs m = Inr m' \<and>
         (\<forall>r\<in>set rs. m' (rotd_operationType r) = Some (rotd_type r)) \<and>
         (\<forall>op. op \<notin> rotd_operationType ` set rs \<longrightarrow> m' op = m op)"
proof (induction rs arbitrary: m)
  case Nil then show ?case by simp
next
  case (Cons a rs)
  let ?m = "m(rotd_operationType a \<mapsto> rotd_type a)"
  have d: "distinct (map rotd_operationType rs)" and na: "rotd_operationType a \<notin> rotd_operationType ` set rs"
    using Cons.prems(1) by simp_all
  have "\<forall>r\<in>set rs. \<not> truthyString (?m (rotd_operationType r))"
    using Cons.prems(2) na by (auto simp: image_iff)
  from Cons.IH [OF d this] obtain m' where
    m': "rootOperationTypeDefinitions_loop rs ?m = Inr m'"
    and b: "\<forall>r\<in>set rs. m' (rotd_operationType r) = Some (rotd_type r)"
    and o: "\<forall>op. op \<notin> rotd_operationType ` set rs \<longrightarrow> m' op = ?m op" by blast
  have "rootOperationTypeDefinitions_loop (a # rs) m = Inr m'"
    using Cons.prems(2) m' by simp
  moreover have "m' (rotd_operationType a) = Some (rotd_type a)"
    using o na by simp
  moreover have "\<forall>op. op \<notin> rotd_operationType ` set (a # rs) \<longrightarrow> m' op = m op"
    using o by simp
  ultimately show ?case using b by simp
qed

subsection \<open>What an accepted entry changes\<close>

lemma schemaDefinition_Inr:
  assumes "schemaDefinition def c = Inr c'"
  shows "ctx_rootOperationTypes c = None"
    and "\<exists>rots ds. rootOperationTypeDefinitions_loop (sd_rootOperationTypeDefinitions def) Map.empty = Inr rots
           \<and> directives (sd_directives def) ''schema definition'' = Inr ds
           \<and> c' = c\<lparr>ctx_rootOperationTypes := Some rots, ctx_description := sd_description def,
                     ctx_schemaDirectives := ctx_schemaDirectives c @ ds\<rparr>"
  using assms by (auto simp: schemaDefinition_def andThen_eq_Inr split: if_splits)

lemma schemaExtension_Inr:
  assumes "schemaExtension def c = Inr c'"
  shows "\<exists>rots ds. rootOperationTypeDefinitions_loop (orEmpty (se_rootOperationTypeDefinitions def))
             (case ctx_rootOperationTypes c of None \<Rightarrow> Map.empty | Some rots \<Rightarrow> rots) = Inr rots
           \<and> directives (se_directives def) ''schema definition'' = Inr ds
           \<and> c' = c\<lparr>ctx_rootOperationTypes := Some rots,
                     ctx_schemaDirectives := ctx_schemaDirectives c @ ds\<rparr>"
  using assms by (auto simp: schemaExtension_def andThen_eq_Inr)

lemma directiveDefinition_Inr:
  assumes "directiveDefinition def c = Inr c'"
  shows "\<exists>dds. c' = c\<lparr>ctx_directiveDefinitions := dds\<rparr>"
  using assms by (auto simp: directiveDefinition_def andThen_eq_Inr split: if_splits)

lemma typeDefinition_Inr:
  assumes "typeDefinition def c = Inr c'"
  shows "\<not> truthy (get (ctx_typeDefinitions c) (ptd_name def))"
    and "\<exists>td. c' = c\<lparr>ctx_typeDefinitions := (ctx_typeDefinitions c)(ptd_name def \<mapsto> td)\<rparr>
            \<and> typeTag (td_type td) = typeTypeTag (ptd_typeType def)"
  using assms
  by (auto simp: typeDefinition_def scalarTypeDefinition_def objectTypeDefinition_def
      interfaceTypeDefinition_def unionTypeDefinition_def enumTypeDefinition_def
      inputObjectTypeDefinition_def store_def andThen_eq_Inr
      split: if_splits typeType.splits)

lemma typeExtension_Inr:
  assumes "typeExtension def c = Inr c'"
  shows "\<exists>td td'. ctx_typeDefinitions c (te_name def) = Some td
            \<and> c' = c\<lparr>ctx_typeDefinitions := (ctx_typeDefinitions c)(te_name def \<mapsto> td')\<rparr>
            \<and> typeTag (td_type td') = typeTag (td_type td)
            \<and> typeTag (td_type td) = typeTypeTag (te_typeType def)"
  using assms
  by (auto simp: typeExtension_def scalarTypeExtension_def objectTypeExtension_def
      interfaceTypeExtension_def unionTypeExtension_def enumTypeExtension_def
      inputObjectTypeExtension_def get_def andThen_eq_Inr
      split: if_splits typeType.splits kind.splits property.splits option.splits)

lemma typeSystem_cases:
  assumes "typeSystem d c = Inr c'"
  obtains (sd) x where "d = subType_definition (definitionType_schema x)" "schemaDefinition x c = Inr c'"
  | (dd) x where "d = subType_definition (definitionType_directive x)" "directiveDefinition x c = Inr c'"
  | (td) x where "d = subType_definition (definitionType_type x)" "typeDefinition x c = Inr c'"
  | (se) x where "d = subType_extension (extensionType_schema x)" "schemaExtension x c = Inr c'"
  | (te) x where "d = subType_extension (extensionType_type x)" "typeExtension x c = Inr c'"
  using assms
  by (auto simp: typeSystem_def typeSystemDefinition_def typeSystemExtension_def
      split: TypeSystemDefinitionOrExtension.splits TypeSystemDefinition.splits
        TypeSystemExtension.splits)

lemma step_roots_kept:
  assumes "typeSystem d c = Inr c'" and "ctx_rootOperationTypes c = Some m"
    and "m op = Some t" and "t \<noteq> []"
  shows "\<exists>m'. ctx_rootOperationTypes c' = Some m' \<and> m' op = Some t"
  using assms(1)
proof (cases rule: typeSystem_cases)
  case (sd x)
  from schemaDefinition_Inr(1) [OF sd(2)] assms(2) show ?thesis by simp
next
  case (dd x)
  from directiveDefinition_Inr [OF dd(2)] assms(2,3) show ?thesis by auto
next
  case (td x)
  from typeDefinition_Inr(2) [OF td(2)] assms(2,3) show ?thesis by auto
next
  case (se x)
  from schemaExtension_Inr [OF se(2)] obtain rots ds where
    l: "rootOperationTypeDefinitions_loop (orEmpty (se_rootOperationTypeDefinitions x)) m = Inr rots"
    and c': "c' = c\<lparr>ctx_rootOperationTypes := Some rots,
                     ctx_schemaDirectives := ctx_schemaDirectives c @ ds\<rparr>"
    using assms(2) by auto
  from root_loop_keeps [OF l assms(3,4)] c' show ?thesis by simp
next
  case (te x)
  from typeExtension_Inr [OF te(2)] assms(2,3) show ?thesis by auto
qed

lemma step_roots_defined:
  assumes "typeSystem d c = Inr c'" and "ctx_rootOperationTypes c \<noteq> None"
  shows "ctx_rootOperationTypes c' \<noteq> None"
  using assms(1)
proof (cases rule: typeSystem_cases)
  case (sd x)
  from schemaDefinition_Inr(1) [OF sd(2)] assms(2) show ?thesis by simp
next
  case (dd x)
  from directiveDefinition_Inr [OF dd(2)] assms(2) show ?thesis by auto
next
  case (td x)
  from typeDefinition_Inr(2) [OF td(2)] assms(2) show ?thesis by auto
next
  case (se x)
  from schemaExtension_Inr [OF se(2)] show ?thesis by auto
next
  case (te x)
  from typeExtension_Inr [OF te(2)] assms(2) show ?thesis by auto
qed

lemma step_types_kept:
  assumes "typeSystem d c = Inr c'" and "ctx_typeDefinitions c n = Some td"
  shows "\<exists>td'. ctx_typeDefinitions c' n = Some td' \<and> typeTag (td_type td') = typeTag (td_type td)"
  using assms(1)
proof (cases rule: typeSystem_cases)
  case (sd x)
  from schemaDefinition_Inr(2) [OF sd(2)] assms(2) show ?thesis by auto
next
  case (dd x)
  from directiveDefinition_Inr [OF dd(2)] assms(2) show ?thesis by auto
next
  case (td x)
  from typeDefinition_Inr(1) [OF td(2)] assms(2) have "ptd_name x \<noteq> n"
    by (auto simp: truthy_def get_def)
  with typeDefinition_Inr(2) [OF td(2)] assms(2) show ?thesis by auto
next
  case (se x)
  from schemaExtension_Inr [OF se(2)] assms(2) show ?thesis by auto
next
  case (te x)
  from typeExtension_Inr [OF te(2)] assms(2) show ?thesis
    by (cases "te_name x = n") auto
qed

lemma step_roots_unchanged:
  assumes "typeSystem d c = Inr c'"
    and "\<not> isSchemaDefinition (type_typeSystem d)" and "\<not> isSchemaExtension (type_typeSystem d)"
  shows "ctx_rootOperationTypes c' = ctx_rootOperationTypes c"
  using assms(1)
proof (cases rule: typeSystem_cases)
  case (sd x) with assms(2) show ?thesis by simp
next
  case (dd x)
  from directiveDefinition_Inr [OF dd(2)] show ?thesis by auto
next
  case (td x)
  from typeDefinition_Inr(2) [OF td(2)] show ?thesis by auto
next
  case (se x) with assms(3) show ?thesis by simp
next
  case (te x)
  from typeExtension_Inr [OF te(2)] show ?thesis by auto
qed

lemma schema_loop_Cons_Inr:
  "schema_loop (d # ds) c = Inr c' \<longleftrightarrow>
     (\<exists>t c1. d = type_typeSystem t \<and> typeSystem t c = Inr c1 \<and> schema_loop ds c1 = Inr c')"
  by (cases d) (auto simp: andThen_eq_Inr)

lemma loop_roots_kept:
  "schema_loop ds c = Inr c' \<Longrightarrow> ctx_rootOperationTypes c = Some m \<Longrightarrow> m op = Some t \<Longrightarrow> t \<noteq> [] \<Longrightarrow>
   \<exists>m'. ctx_rootOperationTypes c' = Some m' \<and> m' op = Some t"
proof (induction ds arbitrary: c m)
  case Nil then show ?case by simp
next
  case (Cons d ds)
  from Cons.prems(1) obtain t1 c1 where s: "typeSystem t1 c = Inr c1" and r: "schema_loop ds c1 = Inr c'"
    unfolding schema_loop_Cons_Inr by blast
  from step_roots_kept [OF s Cons.prems(2,3,4)] obtain m1 where
    "ctx_rootOperationTypes c1 = Some m1" "m1 op = Some t" by blast
  from Cons.IH [OF r this Cons.prems(4)] show ?case .
qed

lemma loop_roots_defined:
  "schema_loop ds c = Inr c' \<Longrightarrow> ctx_rootOperationTypes c \<noteq> None \<Longrightarrow> ctx_rootOperationTypes c' \<noteq> None"
proof (induction ds arbitrary: c)
  case Nil then show ?case by simp
next
  case (Cons d ds)
  from Cons.prems(1) obtain t1 c1 where s: "typeSystem t1 c = Inr c1" and r: "schema_loop ds c1 = Inr c'"
    unfolding schema_loop_Cons_Inr by blast
  from Cons.IH [OF r step_roots_defined [OF s Cons.prems(2)]] show ?case .
qed

lemma loop_types_kept:
  "schema_loop ds c = Inr c' \<Longrightarrow> ctx_typeDefinitions c n = Some td \<Longrightarrow>
   \<exists>td'. ctx_typeDefinitions c' n = Some td' \<and> typeTag (td_type td') = typeTag (td_type td)"
proof (induction ds arbitrary: c td)
  case Nil then show ?case by simp
next
  case (Cons d ds)
  from Cons.prems(1) obtain t1 c1 where s: "typeSystem t1 c = Inr c1" and r: "schema_loop ds c1 = Inr c'"
    unfolding schema_loop_Cons_Inr by blast
  from step_types_kept [OF s Cons.prems(2)] obtain td1 where
    a: "ctx_typeDefinitions c1 n = Some td1" and b: "typeTag (td_type td1) = typeTag (td_type td)" by blast
  from Cons.IH [OF r a] b show ?case by auto
qed

lemma loop_roots_unchanged:
  "schema_loop ds c = Inr c' \<Longrightarrow> \<forall>d\<in>set ds. \<not> isSchemaDefinition d \<and> \<not> isSchemaExtension d \<Longrightarrow>
   ctx_rootOperationTypes c' = ctx_rootOperationTypes c"
proof (induction ds arbitrary: c)
  case Nil then show ?case by simp
next
  case (Cons d ds)
  from Cons.prems(1) obtain t1 c1 where d: "d = type_typeSystem t1"
    and s: "typeSystem t1 c = Inr c1" and r: "schema_loop ds c1 = Inr c'"
    unfolding schema_loop_Cons_Inr by blast
  from Cons.prems(2) d have "\<not> isSchemaDefinition (type_typeSystem t1)" "\<not> isSchemaExtension (type_typeSystem t1)"
    by simp_all
  from step_roots_unchanged [OF s this] Cons.IH [OF r] Cons.prems(2) show ?case by simp
qed

subsection \<open>Failures of the traversal\<close>

lemma isSchemaDefinition_iff: "isSchemaDefinition d \<longleftrightarrow> (\<exists>x. d = schemaDefinitionEntry x)"
  by (cases d rule: isSchemaDefinition.cases) auto

lemma isError_analyzeSchema:
  "isError (analyzeSchema document) \<longleftrightarrow> isError (schema_loop document initialContext)"
  by (cases "schema_loop document initialContext") (simp_all add: analyzeSchema_def schema_def)

lemma analyzeSchema_Inl:
  "schema_loop document initialContext = Inl e \<Longrightarrow> analyzeSchema document = Inl e"
  by (simp add: analyzeSchema_def schema_def)

lemma not_isError_iff: "\<not> isError r \<longleftrightarrow> (\<exists>x. r = Inr x)"
  by (cases r) simp_all

lemma schema_loop_executable:
  "\<exists>d\<in>set ds. isExecutable d \<Longrightarrow> isError (schema_loop ds c)"
proof (induction ds arbitrary: c)
  case Nil then show ?case by simp
next
  case (Cons d ds)
  show ?case
  proof (cases d)
    case (type_executable e)
    then show ?thesis by simp
  next
    case (type_typeSystem t)
    with Cons.prems have "\<exists>d\<in>set ds. isExecutable d" by simp
    from Cons.IH [OF this] type_typeSystem show ?thesis
      by (cases "typeSystem t c") simp_all
  qed
qed

lemma operation_loop_typeSystem:
  "\<exists>d\<in>set ds. isTypeSystem d \<Longrightarrow>
   operation_loop ds c = Inl (Error ''TypeSystemDefinitionOrExtension in Operation'')"
proof (induction ds arbitrary: c)
  case Nil then show ?case by simp
next
  case (Cons d ds)
  show ?case
  proof (cases d)
    case (type_typeSystem t)
    then show ?thesis by simp
  next
    case (type_executable e)
    with Cons.prems have "\<exists>d\<in>set ds. isTypeSystem d" by simp
    from Cons.IH [OF this] type_executable show ?thesis
      by (cases e) (simp_all add: executable_def)
  qed
qed

lemma schema_loop_snoc_step:
  "schema_loop pre c = Inr c1 \<Longrightarrow>
   schema_loop (pre @ type_typeSystem t # post) c = andThen (typeSystem t c1) (schema_loop post)"
  by (simp add: schema_loop_append)

lemma multiple_schemaDefinition:
  assumes "schema_loop pre initialContext = Inr c" and "ctx_rootOperationTypes c \<noteq> None"
  shows "analyzeSchema (pre @ schemaDefinitionEntry d # post) = Inl (Error ''Multiple SchemaDefinition'')"
proof -
  have "typeSystem (subType_definition (definitionType_schema d)) c = Inl (Error ''Multiple SchemaDefinition'')"
    using assms(2) by (auto simp: typeSystem_def typeSystemDefinition_def schemaDefinition_def)
  then have "schema_loop (pre @ schemaDefinitionEntry d # post) initialContext = Inl (Error ''Multiple SchemaDefinition'')"
    using assms(1) by (simp add: schema_loop_snoc_step)
  then show ?thesis by (rule analyzeSchema_Inl)
qed

lemma after_schemaDefinition:
  assumes "schema_loop (pre @ schemaDefinitionEntry d # mid) c0 = Inr c"
  shows "ctx_rootOperationTypes c \<noteq> None"
proof -
  from assms obtain c1 c2 where "schema_loop pre c0 = Inr c1"
    and s: "typeSystem (subType_definition (definitionType_schema d)) c1 = Inr c2"
    and m: "schema_loop mid c2 = Inr c"
    by (auto simp: schema_loop_append andThen_eq_Inr)
  from s have "schemaDefinition d c1 = Inr c2"
    by (simp add: typeSystem_def typeSystemDefinition_def)
  from schemaDefinition_Inr(2) [OF this] have "ctx_rootOperationTypes c2 \<noteq> None" by auto
  from loop_roots_defined [OF m this] show ?thesis .
qed

lemma after_schemaExtension:
  assumes "schema_loop (pre @ schemaExtensionEntry d # mid) c0 = Inr c"
  shows "ctx_rootOperationTypes c \<noteq> None"
proof -
  from assms obtain c1 c2 where "schema_loop pre c0 = Inr c1"
    and s: "typeSystem (subType_extension (extensionType_schema d)) c1 = Inr c2"
    and m: "schema_loop mid c2 = Inr c"
    by (auto simp: schema_loop_append andThen_eq_Inr)
  from s have "schemaExtension d c1 = Inr c2"
    by (simp add: typeSystem_def typeSystemExtension_def)
  from schemaExtension_Inr [OF this] have "ctx_rootOperationTypes c2 \<noteq> None" by auto
  from loop_roots_defined [OF m this] show ?thesis .
qed

lemma after_typeDefinition:
  assumes "schema_loop (pre @ typeDefinitionEntry d # mid) c0 = Inr c"
  shows "\<exists>td. ctx_typeDefinitions c (ptd_name d) = Some td
           \<and> typeTag (td_type td) = typeTypeTag (ptd_typeType d)"
proof -
  from assms obtain c1 c2 where "schema_loop pre c0 = Inr c1"
    and s: "typeSystem (subType_definition (definitionType_type d)) c1 = Inr c2"
    and m: "schema_loop mid c2 = Inr c"
    by (auto simp: schema_loop_append andThen_eq_Inr)
  from s have "typeDefinition d c1 = Inr c2"
    by (simp add: typeSystem_def typeSystemDefinition_def)
  from typeDefinition_Inr(2) [OF this] obtain td where
    "ctx_typeDefinitions c2 (ptd_name d) = Some td" "typeTag (td_type td) = typeTypeTag (ptd_typeType d)"
    by auto
  with loop_types_kept [OF m this(1)] show ?thesis by auto
qed

lemma multiple_typeDefinition:
  assumes "schema_loop pre initialContext = Inr c" and "ctx_typeDefinitions c (ptd_name d) = Some td"
  shows "analyzeSchema (pre @ typeDefinitionEntry d # post) =
           Inl (Error (''Multiple TypeDefinition for '' @ ptd_name d))"
proof -
  have "typeSystem (subType_definition (definitionType_type d)) c =
          Inl (Error (''Multiple TypeDefinition for '' @ ptd_name d))"
    using assms(2)
    by (simp add: typeSystem_def typeSystemDefinition_def typeDefinition_def get_def truthy_def)
  then have "schema_loop (pre @ typeDefinitionEntry d # post) initialContext =
          Inl (Error (''Multiple TypeDefinition for '' @ ptd_name d))"
    using assms(1) by (simp add: schema_loop_snoc_step)
  then show ?thesis by (rule analyzeSchema_Inl)
qed

subsection \<open>No failure is \<^verbatim>\<open>No SchemaDefinition\<close>\<close>

lemma noNSD_Inr [simp]: "notNoSchemaDefinition (Inr x)"
  by (simp add: notNoSchemaDefinition_def)

lemma noNSD_Inl [simp]: "notNoSchemaDefinition (Inl (Error s)) \<longleftrightarrow> s \<noteq> ''No SchemaDefinition''"
  by (simp add: notNoSchemaDefinition_def)

lemma noNSD_raise [simp]: "notNoSchemaDefinition (raise (Error s)) \<longleftrightarrow> s \<noteq> ''No SchemaDefinition''"
  by (simp add: notNoSchemaDefinition_def raise_def)

lemma noNSD_andThen: "notNoSchemaDefinition r \<Longrightarrow> (\<And>x. notNoSchemaDefinition (f x)) \<Longrightarrow> notNoSchemaDefinition (andThen r f)"
  by (cases r) (simp_all add: notNoSchemaDefinition_def)

lemma noNSD_directive_loop: "notNoSchemaDefinition (directive_loop as dname on args)"
  by (induction as arbitrary: args) simp_all

lemma noNSD_directive: "notNoSchemaDefinition (directive d on)"
  by (simp add: directive_def noNSD_andThen noNSD_directive_loop)

lemma noNSD_mapRaise: "(\<And>x. notNoSchemaDefinition (f x)) \<Longrightarrow> notNoSchemaDefinition (mapRaise f xs)"
  by (induction xs) (simp_all add: noNSD_andThen)

lemma noNSD_directives: "notNoSchemaDefinition (directives ds on)"
  by (simp add: directives_def noNSD_mapRaise noNSD_directive)

lemma noNSD_inputValuesDefinition_loop: "notNoSchemaDefinition (inputValuesDefinition_loop as on result)"
  by (induction as arbitrary: result) (simp_all add: noNSD_andThen noNSD_directives)

lemma noNSD_inputValuesDefinition: "notNoSchemaDefinition (inputValuesDefinition def on)"
  by (simp add: inputValuesDefinition_def noNSD_inputValuesDefinition_loop)

lemma noNSD_fieldDefinition: "notNoSchemaDefinition (fieldDefinition def on)"
  by (simp add: fieldDefinition_def noNSD_andThen noNSD_inputValuesDefinition noNSD_directives)

lemma noNSD_fieldsDefinition_loop: "notNoSchemaDefinition (fieldsDefinition_loop fds on result)"
  by (induction fds arbitrary: result) (simp_all add: noNSD_andThen noNSD_fieldDefinition)

lemma noNSD_fieldsDefinition: "notNoSchemaDefinition (fieldsDefinition def on)"
  by (simp add: fieldsDefinition_def noNSD_fieldsDefinition_loop)

lemma noNSD_noDuplicate: "notNoSchemaDefinition (noDuplicate strs on)"
  by (simp add: noDuplicate_def)

lemma noNSD_root_loop: "notNoSchemaDefinition (rootOperationTypeDefinitions_loop rs m)"
  by (induction rs arbitrary: m) simp_all

lemma noNSD_schemaDefinition: "notNoSchemaDefinition (schemaDefinition def c)"
  by (simp add: schemaDefinition_def noNSD_andThen noNSD_root_loop noNSD_directives)

lemma noNSD_schemaExtension: "notNoSchemaDefinition (schemaExtension def c)"
  by (simp add: schemaExtension_def noNSD_andThen noNSD_root_loop noNSD_directives)

lemma noNSD_directiveDefinition_loop: "notNoSchemaDefinition (directiveDefinition_loop ls dname locs)"
  by (induction ls arbitrary: locs) simp_all

lemma noNSD_directiveDefinition: "notNoSchemaDefinition (directiveDefinition def c)"
  by (simp add: directiveDefinition_def noNSD_andThen noNSD_inputValuesDefinition
      noNSD_directiveDefinition_loop)

lemma noNSD_enumTypeDefinition_loop: "notNoSchemaDefinition (enumTypeDefinition_loop evs tname m)"
  by (induction evs arbitrary: m) (simp_all add: noNSD_andThen noNSD_directives)

lemma noNSD_typeDefinition: "notNoSchemaDefinition (typeDefinition def c)"
  by (auto simp: typeDefinition_def scalarTypeDefinition_def objectTypeDefinition_def
      interfaceTypeDefinition_def unionTypeDefinition_def enumTypeDefinition_def
      inputObjectTypeDefinition_def noNSD_directives noNSD_noDuplicate noNSD_fieldsDefinition
      noNSD_enumTypeDefinition_loop noNSD_inputValuesDefinition
      intro!: noNSD_andThen split: typeType.splits option.splits)

lemma noNSD_objectTypeExtension_loop: "notNoSchemaDefinition (objectTypeExtension_loop fds fs)"
  by (induction fds arbitrary: fs) (simp_all add: noNSD_andThen noNSD_fieldDefinition)

lemma noNSD_interfaceTypeExtension_loop: "notNoSchemaDefinition (interfaceTypeExtension_loop fds fs)"
  by (induction fds arbitrary: fs) (simp_all add: noNSD_andThen noNSD_fieldDefinition)

lemma noNSD_enumTypeExtension_loop: "notNoSchemaDefinition (enumTypeExtension_loop evs tname m)"
  by (induction evs arbitrary: m) (simp_all add: noNSD_andThen noNSD_directives)

lemma noNSD_inputObjectTypeExtension_loop: "notNoSchemaDefinition (inputObjectTypeExtension_loop as tname m)"
  by (induction as arbitrary: m) (simp_all add: noNSD_andThen noNSD_directives)

lemma noNSD_typeExtension: "notNoSchemaDefinition (typeExtension def c)"
  by (auto simp: typeExtension_def scalarTypeExtension_def objectTypeExtension_def
      interfaceTypeExtension_def unionTypeExtension_def enumTypeExtension_def
      inputObjectTypeExtension_def differentType_def noNSD_directives noNSD_noDuplicate
      noNSD_objectTypeExtension_loop noNSD_interfaceTypeExtension_loop
      noNSD_enumTypeExtension_loop noNSD_inputObjectTypeExtension_loop
      intro!: noNSD_andThen split: typeType.splits kind.splits property.splits)

lemma noNSD_typeSystem: "notNoSchemaDefinition (typeSystem d c)"
  by (simp add: typeSystem_def typeSystemDefinition_def typeSystemExtension_def
      noNSD_schemaDefinition noNSD_schemaExtension noNSD_directiveDefinition
      noNSD_typeDefinition noNSD_typeExtension
      split: TypeSystemDefinitionOrExtension.splits TypeSystemDefinition.splits
        TypeSystemExtension.splits)

lemma noNSD_schema_loop: "notNoSchemaDefinition (schema_loop ds c)"
proof (induction ds arbitrary: c)
  case Nil show ?case by simp
next
  case (Cons d ds)
  then show ?case by (cases d) (simp_all add: noNSD_andThen noNSD_typeSystem)
qed

lemma never_No_SchemaDefinition: "analyzeSchema document \<noteq> Inl (Error ''No SchemaDefinition'')"
proof -
  have "notNoSchemaDefinition (schema_loop document initialContext)" by (rule noNSD_schema_loop)
  then show ?thesis
    by (cases "schema_loop document initialContext")
       (simp_all add: analyzeSchema_def schema_def notNoSchemaDefinition_def)
qed

subsection \<open>The description\<close>

lemma step_description_unchanged:
  assumes "typeSystem d c = Inr c'" and "\<not> isSchemaDefinition (type_typeSystem d)"
  shows "ctx_description c' = ctx_description c"
  using assms(1)
proof (cases rule: typeSystem_cases)
  case (sd x) with assms(2) show ?thesis by simp
next
  case (dd x)
  from directiveDefinition_Inr [OF dd(2)] show ?thesis by auto
next
  case (td x)
  from typeDefinition_Inr(2) [OF td(2)] show ?thesis by auto
next
  case (se x)
  from schemaExtension_Inr [OF se(2)] show ?thesis by auto
next
  case (te x)
  from typeExtension_Inr [OF te(2)] show ?thesis by auto
qed

lemma loop_description_unchanged:
  "schema_loop ds c = Inr c' \<Longrightarrow> \<forall>d\<in>set ds. \<not> isSchemaDefinition d \<Longrightarrow>
   ctx_description c' = ctx_description c"
proof (induction ds arbitrary: c)
  case Nil then show ?case by simp
next
  case (Cons d ds)
  from Cons.prems(1) obtain t1 c1 where d: "d = type_typeSystem t1"
    and s: "typeSystem t1 c = Inr c1" and r: "schema_loop ds c1 = Inr c'"
    unfolding schema_loop_Cons_Inr by blast
  from Cons.prems(2) d have "\<not> isSchemaDefinition (type_typeSystem t1)" by simp
  from step_description_unchanged [OF s this] Cons.IH [OF r] Cons.prems(2) show ?case by simp
qed

subsection \<open>Object type extensions\<close>

lemma truthy_get_iff:
  "truthy (get m k) \<longleftrightarrow> k \<in> dom m \<or> k \<in> set Object_prototype_keys"
  by (auto simp: truthy_def get_def split: option.splits)

lemma upd_add_eq: "m(k \<mapsto> v) ++ M = m ++ ([k \<mapsto> v] ++ M)"
  by (rule ext) (simp add: map_add_def split: option.splits)

lemma objectTypeExtension_loop_adds:
  "objectTypeExtension_loop fds fs = Inr fs' \<Longrightarrow>
   \<exists>M. fs' = fs ++ M \<and> dom M = pfd_name ` set fds \<and> dom M \<inter> dom fs = {} \<and>
       (\<forall>fs2. dom fs2 \<inter> dom M = {} \<longrightarrow> objectTypeExtension_loop fds fs2 = Inr (fs2 ++ M))"
proof (induction fds arbitrary: fs)
  case Nil
  then show ?case by (intro exI [of _ Map.empty]) simp
next
  case (Cons fd rest)
  let ?n = "pfd_name fd"
  let ?on = "''field '' @ pfd_name fd @ '' on type typeSystem extension''"
  from Cons.prems have nt: "\<not> truthy (get fs ?n)"
    by (auto split: if_splits)
  with Cons.prems obtain f where f: "fieldDefinition fd ?on = Inr f"
    and r: "objectTypeExtension_loop rest (fs(?n \<mapsto> f)) = Inr fs'"
    by (auto simp: andThen_eq_Inr)
  from nt have nd: "?n \<notin> dom fs" and np: "?n \<notin> set Object_prototype_keys"
    by (simp_all add: truthy_get_iff)
  from Cons.IH [OF r] obtain M where
    M1: "fs' = fs(?n \<mapsto> f) ++ M" and M2: "dom M = pfd_name ` set rest"
    and M3: "dom M \<inter> dom (fs(?n \<mapsto> f)) = {}"
    and M4: "\<forall>fs2. dom fs2 \<inter> dom M = {} \<longrightarrow> objectTypeExtension_loop rest fs2 = Inr (fs2 ++ M)"
    by blast
  let ?M = "[?n \<mapsto> f] ++ M"
  have a: "fs' = fs ++ ?M"
    unfolding M1 by (rule upd_add_eq)
  have b: "dom ?M = pfd_name ` set (fd # rest)"
    using M2 by (simp add: insert_commute)
  have c: "dom ?M \<inter> dom fs = {}"
    using M3 nd by (simp add: Int_insert_left)
  have d: "objectTypeExtension_loop (fd # rest) fs2 = Inr (fs2 ++ ?M)" if h: "dom fs2 \<inter> dom ?M = {}" for fs2
  proof -
    from h have "?n \<notin> dom fs2" by (simp add: disjoint_iff) blast
    with np have nt2: "\<not> truthy (get fs2 ?n)" by (simp add: truthy_get_iff)
    from M3 have "?n \<notin> dom M" by (simp add: disjoint_iff) blast
    with h have "dom (fs2(?n \<mapsto> f)) \<inter> dom M = {}" by (simp add: disjoint_iff)
    with M4 [rule_format, of "fs2(?n \<mapsto> f)"]
    have r2: "objectTypeExtension_loop rest (fs2(?n \<mapsto> f)) = Inr (fs2(?n \<mapsto> f) ++ M)" by simp
    have e: "fs2 ++ ?M = fs2(?n \<mapsto> f) ++ M"
      by (rule upd_add_eq [symmetric])
    show ?thesis unfolding e using nt2 f r2 by simp
  qed
  show ?case
  proof (intro exI [of _ ?M] conjI allI impI)
    show "fs' = fs ++ ?M" by (rule a)
    show "dom ?M = pfd_name ` set (fd # rest)" by (rule b)
    show "dom ?M \<inter> dom fs = {}" by (rule c)
    show "objectTypeExtension_loop (fd # rest) fs2 = Inr (fs2 ++ ?M)"
      if "dom fs2 \<inter> dom ?M = {}" for fs2
      using that by (rule d)
  qed
qed

lemma objectTypeExtension_loop_collides:
  "objectTypeExtension_loop fds fsA = Inr r \<Longrightarrow> dom fsA \<subseteq> dom fsB \<Longrightarrow>
   pfd_name ` set fds \<inter> dom fsB \<noteq> {} \<Longrightarrow>
   objectTypeExtension_loop fds fsB = Inl duplicateField"
proof (induction fds arbitrary: fsA fsB)
  case Nil
  then show ?case by simp
next
  case (Cons fd rest)
  let ?n = "pfd_name fd"
  let ?on = "''field '' @ pfd_name fd @ '' on type typeSystem extension''"
  from Cons.prems(1) have nt: "\<not> truthy (get fsA ?n)"
    by (auto split: if_splits)
  with Cons.prems(1) obtain f where f: "fieldDefinition fd ?on = Inr f"
    and r: "objectTypeExtension_loop rest (fsA(?n \<mapsto> f)) = Inr r"
    by (auto simp: andThen_eq_Inr)
  show ?case
  proof (cases "?n \<in> dom fsB")
    case True
    then have "truthy (get fsB ?n)" by (simp add: truthy_get_iff)
    then show ?thesis by (simp add: duplicateField_def)
  next
    case False
    with nt have nt2: "\<not> truthy (get fsB ?n)" by (simp add: truthy_get_iff)
    have sub: "dom (fsA(?n \<mapsto> f)) \<subseteq> dom (fsB(?n \<mapsto> f))"
      using Cons.prems(2) by (simp add: subset_insertI2)
    from Cons.prems(3) False have "pfd_name ` set rest \<inter> dom fsB \<noteq> {}"
      by (simp add: Int_insert_left)
    then have "pfd_name ` set rest \<inter> dom (fsB(?n \<mapsto> f)) \<noteq> {}"
      by (simp add: disjoint_iff) blast
    from Cons.IH [OF r sub this]
    have "objectTypeExtension_loop rest (fsB(?n \<mapsto> f)) = Inl duplicateField" .
    moreover have "objectTypeExtension_loop (fd # rest) fsB =
        objectTypeExtension_loop rest (fsB(?n \<mapsto> f))"
      using nt2 f by simp
    ultimately show ?thesis by (simp only:)
  qed
qed

lemma objectTypeExtension_Inr:
  "objectTypeExtension e i f td = Inr t' \<longleftrightarrow>
   (\<exists>impl fs fs' ds. td_type td = object impl fs \<and> distinct (impl @ orEmpty i) \<and>
      objectTypeExtension_loop (orEmpty f) fs = Inr fs' \<and>
      directives (te_directives e) (''type '' @ te_name e @ '' extension'') = Inr ds \<and>
      t' = td\<lparr>td_type := object (impl @ orEmpty i) fs',
              td_directives := td_directives td @ ds\<rparr>)"
  by (cases "td_type td")
     (auto simp: objectTypeExtension_def noDuplicate_eq andThen_eq_Inr)

lemma distinct_swap: "distinct (a @ b @ c) \<Longrightarrow> distinct (a @ c @ b)"
  by auto

lemma objectTypeExtension_twice:
  assumes a1: "objectTypeExtension e1 i1 f1 td = Inr t1"
    and a2: "objectTypeExtension e2 i2 f2 t1 = Inr t12"
  shows "\<exists>t2 t21. objectTypeExtension e2 i2 f2 td = Inr t2 \<and>
           objectTypeExtension e1 i1 f1 t2 = Inr t21 \<and>
           td_fieldsDefinition t12 = td_fieldsDefinition t21"
proof -
  from a1 obtain impl fs fs1 ds1 where
    td: "td_type td = object impl fs" and d1: "distinct (impl @ orEmpty i1)"
    and l1: "objectTypeExtension_loop (orEmpty f1) fs = Inr fs1"
    and ds1: "directives (te_directives e1) (''type '' @ te_name e1 @ '' extension'') = Inr ds1"
    and t1: "t1 = td\<lparr>td_type := object (impl @ orEmpty i1) fs1,
                      td_directives := td_directives td @ ds1\<rparr>"
    unfolding objectTypeExtension_Inr by blast
  from a2 t1 obtain fs12 ds2 where
    d12: "distinct ((impl @ orEmpty i1) @ orEmpty i2)"
    and l2: "objectTypeExtension_loop (orEmpty f2) fs1 = Inr fs12"
    and ds2: "directives (te_directives e2) (''type '' @ te_name e2 @ '' extension'') = Inr ds2"
    and t12: "t12 = t1\<lparr>td_type := object ((impl @ orEmpty i1) @ orEmpty i2) fs12,
                       td_directives := td_directives t1 @ ds2\<rparr>"
    unfolding objectTypeExtension_Inr by auto
  from objectTypeExtension_loop_adds [OF l1] obtain M1 where
    M1: "fs1 = fs ++ M1" and dM1: "dom M1 \<inter> dom fs = {}"
    and g1: "\<forall>fs2. dom fs2 \<inter> dom M1 = {} \<longrightarrow>
               objectTypeExtension_loop (orEmpty f1) fs2 = Inr (fs2 ++ M1)"
    by blast
  from objectTypeExtension_loop_adds [OF l2] obtain M2 where
    M2: "fs12 = fs1 ++ M2" and dM2: "dom M2 \<inter> dom fs1 = {}"
    and g2: "\<forall>fs2. dom fs2 \<inter> dom M2 = {} \<longrightarrow>
               objectTypeExtension_loop (orEmpty f2) fs2 = Inr (fs2 ++ M2)"
    by blast
  from dM2 M1 have x: "dom fs \<inter> dom M2 = {}" and y: "dom M1 \<inter> dom M2 = {}"
    by (auto simp: disjoint_iff)
  from g2 [rule_format, OF x] have l2': "objectTypeExtension_loop (orEmpty f2) fs = Inr (fs ++ M2)" .
  have "dom (fs ++ M2) \<inter> dom M1 = {}"
    using dM1 y by (auto simp: disjoint_iff)
  from g1 [rule_format, OF this]
  have l1': "objectTypeExtension_loop (orEmpty f1) (fs ++ M2) = Inr ((fs ++ M2) ++ M1)" .
  let ?t2 = "td\<lparr>td_type := object (impl @ orEmpty i2) (fs ++ M2),
                 td_directives := td_directives td @ ds2\<rparr>"
  let ?t21 = "?t2\<lparr>td_type := object ((impl @ orEmpty i2) @ orEmpty i1) ((fs ++ M2) ++ M1),
                  td_directives := td_directives ?t2 @ ds1\<rparr>"
  from d12 have d2: "distinct (impl @ orEmpty i2)" and d21: "distinct ((impl @ orEmpty i2) @ orEmpty i1)"
    by auto
  have b1: "objectTypeExtension e2 i2 f2 td = Inr ?t2"
    unfolding objectTypeExtension_Inr using td d2 l2' ds2 by blast
  have b2: "objectTypeExtension e1 i1 f1 ?t2 = Inr ?t21"
    unfolding objectTypeExtension_Inr using d21 l1' ds1
    by (simp del: distinct_append append_assoc map_add_assoc)
  have "M1 ++ M2 = M2 ++ M1" using y by (rule map_add_comm)
  then have "(fs ++ M1) ++ M2 = (fs ++ M2) ++ M1"
    by (simp only: map_add_assoc [symmetric])
  then have "td_fieldsDefinition t12 = td_fieldsDefinition ?t21"
    by (simp add: td_fieldsDefinition_def t12 M2 M1 del: map_add_assoc)
  with b1 b2 show ?thesis by blast
qed

lemma objectTypeExtension_second:
  assumes td: "td_type td = object impl fs"
    and a1: "objectTypeExtension e1 i1 f1 td = Inr t1"
    and a2: "objectTypeExtension e2 i2 f2 td = Inr t2"
    and d: "distinct (impl @ orEmpty i1 @ orEmpty i2)"
  shows "fieldNames f1 \<inter> fieldNames f2 = {} \<Longrightarrow> \<exists>t12. objectTypeExtension e2 i2 f2 t1 = Inr t12"
    and "fieldNames f1 \<inter> fieldNames f2 \<noteq> {} \<Longrightarrow> objectTypeExtension e2 i2 f2 t1 = Inl duplicateField"
proof -
  from a1 td obtain fs1 ds1 where
    l1: "objectTypeExtension_loop (orEmpty f1) fs = Inr fs1"
    and t1: "t1 = td\<lparr>td_type := object (impl @ orEmpty i1) fs1,
                      td_directives := td_directives td @ ds1\<rparr>"
    unfolding objectTypeExtension_Inr by auto
  from a2 td obtain fs2 ds2 where
    l2: "objectTypeExtension_loop (orEmpty f2) fs = Inr fs2"
    and ds2: "directives (te_directives e2) (''type '' @ te_name e2 @ '' extension'') = Inr ds2"
    unfolding objectTypeExtension_Inr by auto
  from objectTypeExtension_loop_adds [OF l1] obtain M1 where
    M1: "fs1 = fs ++ M1" and n1: "dom M1 = fieldNames f1"
    unfolding fieldNames_def by blast
  from objectTypeExtension_loop_adds [OF l2] obtain M2 where
    n2: "dom M2 = fieldNames f2" and dM2: "dom M2 \<inter> dom fs = {}"
    and g2: "\<forall>fs'. dom fs' \<inter> dom M2 = {} \<longrightarrow>
               objectTypeExtension_loop (orEmpty f2) fs' = Inr (fs' ++ M2)"
    unfolding fieldNames_def by blast
  have dom1: "dom fs1 = dom fs \<union> fieldNames f1"
    using M1 n1 by auto
  have nd: "noDuplicate ((impl @ orEmpty i1) @ orEmpty i2)
              (''implements on type '' @ te_name e2 @ '' extension'')
            = Inr ((impl @ orEmpty i1) @ orEmpty i2)"
    using d by (simp add: noDuplicate_eq)
  have unf: "objectTypeExtension e2 i2 f2 t1 =
      andThen (objectTypeExtension_loop (orEmpty f2) fs1) (\<lambda>fs'.
      andThen (directives (te_directives e2) (''type '' @ te_name e2 @ '' extension''))
        (\<lambda>ds. Inr (t1\<lparr>td_type := object ((impl @ orEmpty i1) @ orEmpty i2) fs',
                      td_directives := td_directives t1 @ ds\<rparr>)))"
    using nd by (simp add: objectTypeExtension_def t1 del: append_assoc)
  show "\<exists>t12. objectTypeExtension e2 i2 f2 t1 = Inr t12" if "fieldNames f1 \<inter> fieldNames f2 = {}"
  proof -
    have "dom fs1 \<inter> dom M2 = {}"
      using dom1 n2 dM2 that by (auto simp: disjoint_iff)
    from g2 [rule_format, OF this] show ?thesis
      unfolding unf using ds2 by simp
  qed
  show "objectTypeExtension e2 i2 f2 t1 = Inl duplicateField" if "fieldNames f1 \<inter> fieldNames f2 \<noteq> {}"
  proof -
    have "dom fs \<subseteq> dom fs1" using dom1 by simp
    moreover have "pfd_name ` set (orEmpty f2) \<inter> dom fs1 \<noteq> {}"
      using that dom1 by (auto simp: fieldNames_def)
    ultimately have "objectTypeExtension_loop (orEmpty f2) fs1 = Inl duplicateField"
      by (rule objectTypeExtension_loop_collides [OF l2])
    then show ?thesis unfolding unf by simp
  qed
qed

lemma objectTypeExtension_overlap_fails:
  assumes a1: "objectTypeExtension e1 i1 f1 td = Inr t1"
    and ov: "fieldNames f1 \<inter> fieldNames f2 \<noteq> {}"
  shows "isError (objectTypeExtension e2 i2 f2 t1)"
proof (rule ccontr)
  assume "\<not> isError (objectTypeExtension e2 i2 f2 t1)"
  then obtain t12 where a2: "objectTypeExtension e2 i2 f2 t1 = Inr t12"
    by (auto simp: not_isError_iff)
  from a1 obtain impl fs fs1 ds1 where
    l1: "objectTypeExtension_loop (orEmpty f1) fs = Inr fs1"
    and t1: "t1 = td\<lparr>td_type := object (impl @ orEmpty i1) fs1,
                      td_directives := td_directives td @ ds1\<rparr>"
    unfolding objectTypeExtension_Inr by blast
  from a2 t1 obtain fs12 where l2: "objectTypeExtension_loop (orEmpty f2) fs1 = Inr fs12"
    unfolding objectTypeExtension_Inr by auto
  from objectTypeExtension_loop_adds [OF l1] obtain M1 where
    "fs1 = fs ++ M1" "dom M1 = fieldNames f1"
    unfolding fieldNames_def by blast
  then have "fieldNames f1 \<subseteq> dom fs1" by auto
  moreover from objectTypeExtension_loop_adds [OF l2] have "fieldNames f2 \<inter> dom fs1 = {}"
    unfolding fieldNames_def by blast
  ultimately show False using ov by blast
qed

lemma object_extensions_same_outcome:
  assumes "andThen (objectTypeExtension e1 i1 f1 td) (objectTypeExtension e2 i2 f2) = Inr t12"
  shows "\<exists>t21. andThen (objectTypeExtension e2 i2 f2 td) (objectTypeExtension e1 i1 f1) = Inr t21 \<and>
           td_fieldsDefinition t12 = td_fieldsDefinition t21"
proof -
  from assms obtain t1 where a: "objectTypeExtension e1 i1 f1 td = Inr t1"
    and b: "objectTypeExtension e2 i2 f2 t1 = Inr t12"
    by (auto simp: andThen_eq_Inr)
  from objectTypeExtension_twice [OF a b] show ?thesis by auto
qed

subsection \<open>Schema extensions\<close>

lemma schemaExtension_succeeds:
  assumes dirs: "directives (se_directives e) ''schema definition'' = Inr ds"
    and dist: "distinct (map rotd_operationType (orEmpty (se_rootOperationTypeDefinitions e)))"
    and free: "\<forall>r\<in>set (orEmpty (se_rootOperationTypeDefinitions e)). \<forall>rots.
                 ctx_rootOperationTypes context = Some rots \<longrightarrow>
                 \<not> truthyString (rots (rotd_operationType r))"
  shows "\<exists>rots. schemaExtension e context =
             Inr (context\<lparr>ctx_rootOperationTypes := Some rots,
                          ctx_schemaDirectives := ctx_schemaDirectives context @ ds\<rparr>) \<and>
           (\<forall>r\<in>set (orEmpty (se_rootOperationTypeDefinitions e)).
              rots (rotd_operationType r) = Some (rotd_type r)) \<and>
           (ctx_rootOperationTypes context = None \<longrightarrow>
              dom rots = rotd_operationType ` set (orEmpty (se_rootOperationTypeDefinitions e)))"
proof -
  let ?rs = "orEmpty (se_rootOperationTypeDefinitions e)"
  let ?m = "case ctx_rootOperationTypes context of None \<Rightarrow> Map.empty | Some rots \<Rightarrow> rots"
  have "\<forall>r\<in>set ?rs. \<not> truthyString (?m (rotd_operationType r))"
    using free by (cases "ctx_rootOperationTypes context") (simp_all add: truthyString_def)
  from root_loop_succeeds [OF dist this] obtain m' where
    l: "rootOperationTypeDefinitions_loop ?rs ?m = Inr m'"
    and b: "\<forall>r\<in>set ?rs. m' (rotd_operationType r) = Some (rotd_type r)"
    and o: "\<forall>op. op \<notin> rotd_operationType ` set ?rs \<longrightarrow> m' op = ?m op"
    by blast
  have "dom m' = rotd_operationType ` set ?rs" if "ctx_rootOperationTypes context = None"
  proof (rule set_eqI)
    fix op
    show "op \<in> dom m' \<longleftrightarrow> op \<in> rotd_operationType ` set ?rs"
    proof (cases "op \<in> rotd_operationType ` set ?rs")
      case True
      with b show ?thesis by auto
    next
      case False
      with o that show ?thesis by (simp add: domIff)
    qed
  qed
  moreover have "schemaExtension e context =
      Inr (context\<lparr>ctx_rootOperationTypes := Some m',
                   ctx_schemaDirectives := ctx_schemaDirectives context @ ds\<rparr>)"
    using l dirs by (simp add: schemaExtension_def)
  ultimately show ?thesis using b by (intro exI [of _ m']) simp
qed

lemma schemaExtension_absent_mapping:
  "schemaExtension e (context\<lparr>ctx_rootOperationTypes := None\<rparr>) =
   schemaExtension e (context\<lparr>ctx_rootOperationTypes := Some Map.empty\<rparr>)"
  by (simp add: schemaExtension_def)

lemma analyzeSchema_Inr:
  "analyzeSchema document = Inr s \<Longrightarrow>
   \<exists>c. schema_loop document initialContext = Inr c \<and>
       rootOperationTypes s =
         (case ctx_rootOperationTypes c of None \<Rightarrow> Map.empty | Some rots \<Rightarrow> rots) \<and>
       typeDefinitions s = ctx_typeDefinitions c"
  by (cases "schema_loop document initialContext")
     (auto simp: analyzeSchema_def schema_def)

subsection \<open>Type extensions and definitions\<close>

lemma typeExtension_mismatch:
  assumes "ctx_typeDefinitions c (te_name e) = Some td"
    and "typeTag (td_type td) \<noteq> typeTypeTag (te_typeType e)"
  shows "typeExtension e c = Inl (differentType e)"
  using assms
  by (cases "te_typeType e"; cases "td_type td")
     (simp_all add: typeExtension_def get_def scalarTypeExtension_def objectTypeExtension_def
        interfaceTypeExtension_def unionTypeExtension_def enumTypeExtension_def
        inputObjectTypeExtension_def)

lemma typeExtension_absent:
  assumes "ctx_typeDefinitions c (te_name e) = None"
  shows "typeExtension e c =
           (if te_name e \<in> set Object_prototype_keys then Inl (differentType e)
            else Inl (Error (''Type extension before type definition for type '' @ te_name e)))"
  using assms by (simp add: typeExtension_def get_def)

lemma step_types_absent:
  assumes "typeSystem d c = Inr c'" and "ctx_typeDefinitions c n = None"
    and "\<forall>x. d = subType_definition (definitionType_type x) \<longrightarrow> ptd_name x \<noteq> n"
  shows "ctx_typeDefinitions c' n = None"
  using assms(1)
proof (cases rule: typeSystem_cases)
  case (sd x)
  from schemaDefinition_Inr(2) [OF sd(2)] assms(2) show ?thesis by auto
next
  case (dd x)
  from directiveDefinition_Inr [OF dd(2)] assms(2) show ?thesis by auto
next
  case (td x)
  with assms(3) have "ptd_name x \<noteq> n" by simp
  with typeDefinition_Inr(2) [OF td(2)] assms(2) show ?thesis by auto
next
  case (se x)
  from schemaExtension_Inr [OF se(2)] assms(2) show ?thesis by auto
next
  case (te x)
  from typeExtension_Inr [OF te(2)] assms(2) show ?thesis
    by (cases "te_name x = n") auto
qed

lemma loop_types_absent:
  "schema_loop ds c = Inr c' \<Longrightarrow> ctx_typeDefinitions c n = None \<Longrightarrow>
   \<forall>x. typeDefinitionEntry x \<in> set ds \<longrightarrow> ptd_name x \<noteq> n \<Longrightarrow>
   ctx_typeDefinitions c' n = None"
proof (induction ds arbitrary: c)
  case Nil then show ?case by simp
next
  case (Cons d ds)
  from Cons.prems(1) obtain t1 c1 where d: "d = type_typeSystem t1"
    and s: "typeSystem t1 c = Inr c1" and r: "schema_loop ds c1 = Inr c'"
    unfolding schema_loop_Cons_Inr by blast
  have "\<forall>x. t1 = subType_definition (definitionType_type x) \<longrightarrow> ptd_name x \<noteq> n"
    using Cons.prems(3) d by simp
  from step_types_absent [OF s Cons.prems(2) this] have "ctx_typeDefinitions c1 n = None" .
  from Cons.IH [OF r this] Cons.prems(3) show ?case by simp
qed

lemma type_extension_before_definition:
  assumes "schema_loop pre initialContext = Inr context"
    and "\<forall>x. typeDefinitionEntry x \<in> set pre \<longrightarrow> ptd_name x \<noteq> te_name e"
    and "te_name e \<notin> set Object_prototype_keys"
  shows "analyzeSchema (pre @ typeExtensionEntry e # post) =
           Inl (Error (''Type extension before type definition for type '' @ te_name e))"
proof -
  have "ctx_typeDefinitions context (te_name e) = None"
    using loop_types_absent [OF assms(1) _ assms(2)] by (simp add: initialContext_def)
  then have "typeSystem (subType_extension (extensionType_type e)) context =
      Inl (Error (''Type extension before type definition for type '' @ te_name e))"
    using assms(3) by (simp add: typeSystem_def typeSystemExtension_def typeExtension_absent)
  then have "schema_loop (pre @ typeExtensionEntry e # post) initialContext =
      Inl (Error (''Type extension before type definition for type '' @ te_name e))"
    using assms(1) by (simp add: schema_loop_snoc_step)
  then show ?thesis by (rule analyzeSchema_Inl)
qed

lemma type_extension_of_inherited_name:
  assumes "schema_loop pre initialContext = Inr context"
    and "\<forall>x. typeDefinitionEntry x \<in> set pre \<longrightarrow> ptd_name x \<noteq> te_name e"
    and "te_name e \<in> set Object_prototype_keys"
  shows "analyzeSchema (pre @ typeExtensionEntry e # post) = Inl (differentType e)"
proof -
  have "ctx_typeDefinitions context (te_name e) = None"
    using loop_types_absent [OF assms(1) _ assms(2)] by (simp add: initialContext_def)
  then have "typeSystem (subType_extension (extensionType_type e)) context =
      Inl (differentType e)"
    using assms(3) by (simp add: typeSystem_def typeSystemExtension_def typeExtension_absent)
  then have "schema_loop (pre @ typeExtensionEntry e # post) initialContext =
      Inl (differentType e)"
    using assms(1) by (simp add: schema_loop_snoc_step)
  then show ?thesis by (rule analyzeSchema_Inl)
qed

lemma type_extension_kind_mismatch:
  assumes "schema_loop (pre @ typeDefinitionEntry d # mid) initialContext = Inr context"
    and "te_name e = ptd_name d"
    and "typeTypeTag (te_typeType e) \<noteq> typeTypeTag (ptd_typeType d)"
  shows "analyzeSchema (pre @ typeDefinitionEntry d # mid @ typeExtensionEntry e # post) =
           Inl (Error (''Type extension for type with different type '' @ te_name e))"
proof -
  from after_typeDefinition [OF assms(1)] assms(2,3) obtain td where
    "ctx_typeDefinitions context (te_name e) = Some td"
    "typeTag (td_type td) \<noteq> typeTypeTag (te_typeType e)" by auto
  from typeExtension_mismatch [OF this]
  have "typeSystem (subType_extension (extensionType_type e)) context = Inl (differentType e)"
    by (simp add: typeSystem_def typeSystemExtension_def)
  then have "schema_loop ((pre @ typeDefinitionEntry d # mid) @ typeExtensionEntry e # post)
      initialContext = Inl (differentType e)"
    using assms(1) by (simp only: schema_loop_snoc_step andThen_Inl)
  then have "analyzeSchema ((pre @ typeDefinitionEntry d # mid) @ typeExtensionEntry e # post) =
      Inl (differentType e)" by (rule analyzeSchema_Inl)
  then show ?thesis by (simp add: differentType_def)
qed

lemma objectTypeExtension_repeated_interface:
  assumes "td_type td = object impl fs" and "\<not> distinct (impl @ orEmpty implementsInterfaces)"
  shows "objectTypeExtension def implementsInterfaces fieldsDef td =
           Inl (Error (''Duplicate implements on type '' @ te_name def @ '' extension''))"
proof -
  have "noDuplicate (impl @ orEmpty implementsInterfaces)
          (''implements on type '' @ te_name def @ '' extension'') =
        Inl (Error (''Duplicate implements on type '' @ te_name def @ '' extension''))"
    using assms(2) by (simp add: noDuplicate_eq del: distinct_append)
  then show ?thesis
    using assms(1) by (simp add: objectTypeExtension_def del: distinct_append)
qed

lemma objectTypeDefinition_repeated_interface:
  assumes "directives (ptd_directives def) (''type '' @ ptd_name def @ '' definition'') = Inr ds"
    and "\<not> distinct (orEmpty implementsInterfaces)"
  shows "objectTypeDefinition def implementsInterfaces fieldsDef context =
           Inl (Error (''Duplicate implements on type '' @ template (ptd_description def)))"
  using assms by (simp add: objectTypeDefinition_def noDuplicate_eq)

subsection \<open>Evaluation\<close>

lemmas analyzer_defs =
  analyzeSchema_def schema_def initialContext_def typeSystem_def typeSystemDefinition_def
  typeSystemExtension_def schemaDefinition_def schemaExtension_def directiveDefinition_def
  typeDefinition_def scalarTypeDefinition_def objectTypeDefinition_def
  interfaceTypeDefinition_def unionTypeDefinition_def enumTypeDefinition_def
  inputObjectTypeDefinition_def typeExtension_def scalarTypeExtension_def
  objectTypeExtension_def interfaceTypeExtension_def unionTypeExtension_def
  enumTypeExtension_def inputObjectTypeExtension_def differentType_def store_def
  directives_def directive_def inputValuesDefinition_def fieldsDefinition_def
  fieldDefinition_def noDuplicate_def orEmpty_def template_def truthy_def truthyString_def
  get_def Object_prototype_keys_def

lemmas example_defs =
  rotd_def parsedField_def schema_query_Query_def extend_schema_mutation_M_def type_Query_hello_def
  scalar_Foo_def extend_scalar_def type_Foo_implements_def extend_type_Foo_implements_def
  Foo_a_def extend_type_Foo_def type_Foo_a_def

subsection \<open>The superseded revision\<close>

lemma index_no_entries:
  "index_analyzeSchema ([] :: ('ty, 'val) Document) = Inl (Error ''No SchemaDefinition'')"
  by (simp add: index_analyzeSchema_def index_schema_def initialContext_def raise_def)

lemma index_schema_loop_no_SchemaDefinition:
  "index_schema_loop ds c = Inr c' \<Longrightarrow> ctx_rootOperationTypes c = None \<Longrightarrow>
   \<forall>d\<in>set ds. \<not> isSchemaDefinition d \<Longrightarrow> ctx_rootOperationTypes c' = None"
proof (induction ds arbitrary: c)
  case Nil
  then show ?case by simp
next
  case (Cons d ds)
  show ?case
  proof (cases d)
    case (type_executable x)
    with Cons show ?thesis by simp
  next
    case (type_typeSystem t)
    show ?thesis
    proof (cases t)
      case (subType_definition x)
      with type_typeSystem Cons.prems obtain c1 where
        s: "typeSystem t c = Inr c1" and r: "index_schema_loop ds c1 = Inr c'"
        by (auto simp: andThen_eq_Inr typeSystem_def)
      have "\<not> isSchemaDefinition (type_typeSystem t)" "\<not> isSchemaExtension (type_typeSystem t)"
        using Cons.prems(3) type_typeSystem subType_definition by simp_all
      from step_roots_unchanged [OF s this] Cons.prems(2)
      have "ctx_rootOperationTypes c1 = None" by simp
      from Cons.IH [OF r this] Cons.prems(3) show ?thesis by simp
    next
      case (subType_extension x)
      show ?thesis
      proof (cases x)
        case (extensionType_schema y)
        with type_typeSystem subType_extension Cons.prems(1,2) show ?thesis by simp
      next
        case (extensionType_type y)
        with type_typeSystem subType_extension Cons.prems obtain c1 where
          s: "typeExtension y c = Inr c1" and r: "index_schema_loop ds c1 = Inr c'"
          by (auto simp: andThen_eq_Inr)
        from typeExtension_Inr [OF s] Cons.prems(2)
        have "ctx_rootOperationTypes c1 = None" by auto
        from Cons.IH [OF r this] Cons.prems(3) show ?thesis by simp
      qed
    qed
  qed
qed

lemma index_no_SchemaDefinition:
  assumes "\<forall>d\<in>set document. \<not> isSchemaDefinition d"
  shows "isError (index_analyzeSchema document)"
    and "\<not> isError (index_schema_loop document initialContext) \<Longrightarrow>
         index_analyzeSchema document = Inl (Error ''No SchemaDefinition'')"
proof -
  have *: "index_analyzeSchema document = Inl (Error ''No SchemaDefinition'')"
    if "index_schema_loop document initialContext = Inr c" for c
  proof -
    have "ctx_rootOperationTypes c = None"
      using index_schema_loop_no_SchemaDefinition [OF that _ assms]
      by (simp add: initialContext_def)
    with that show ?thesis by (simp add: index_analyzeSchema_def index_schema_def raise_def)
  qed
  show "isError (index_analyzeSchema document)"
  proof (cases "index_schema_loop document initialContext")
    case (Inl e)
    then show ?thesis by (simp add: index_analyzeSchema_def index_schema_def)
  next
    case (Inr c)
    from * [OF this] show ?thesis by simp
  qed
  show "index_analyzeSchema document = Inl (Error ''No SchemaDefinition'')"
    if "\<not> isError (index_schema_loop document initialContext)"
    using that * by (auto simp: not_isError_iff)
qed

lemma index_SchemaExtension_first:
  "index_analyzeSchema (schemaExtensionEntry e # rest) =
     Inl (Error ''SchemaExtension before SchemaDefinition'')"
  by (simp add: index_analyzeSchema_def index_schema_def initialContext_def raise_def)

lemma index_executable_skipped:
  "index_analyzeSchema (type_executable x # rest) = index_analyzeSchema rest"
  by (simp add: index_analyzeSchema_def index_schema_def)

section \<open>The claims\<close>

text \<open>
  The first entry that is rejected ends the analysis with its own failure. Where a claim
  names the failure that an entry causes, the theorem gives the result for every
  document with that entry: the failure of an earlier entry if one is rejected, the named
  failure otherwise.
\<close>

text \<open>
  \<^bold>\<open>C1.\<close> A SchemaExtension that stands before any SchemaDefinition is not rejected for
  that. Let the entries before it be accepted and contain no SchemaDefinition, let the
  extension's own directives be well formed and let it bind each operation once and none
  that an earlier extension has bound. Then the extension is accepted; afterwards the
  root-operation-types mapping exists and holds the extension's bindings, and nothing
  else when the mapping did not exist before; and whenever the whole document is
  accepted, the resulting \<^verbatim>\<open>rootOperationTypes\<close> holds these bindings. (The proof does not
  use the absence of a SchemaDefinition: the extension never asks for one, and treats an
  absent mapping as the empty one, \<open>schemaExtension_absent_mapping\<close>.)
\<close>

theorem SchemaExtension_before_SchemaDefinition:
  fixes pre :: "('ty, 'val) Document"
  assumes pre: "schema_loop pre initialContext = Inr context"
    and nodef: "\<forall>d\<in>set pre. \<not> isSchemaDefinition d"
    and dirs: "directives (se_directives e) ''schema definition'' = Inr ds"
    and dist: "distinct (map rotd_operationType (orEmpty (se_rootOperationTypeDefinitions e)))"
    and free: "\<forall>r\<in>set (orEmpty (se_rootOperationTypeDefinitions e)). \<forall>rots.
                 ctx_rootOperationTypes context = Some rots \<longrightarrow>
                 \<not> truthyString (rots (rotd_operationType r))"
  shows "\<exists>rots.
           schema_loop (pre @ [schemaExtensionEntry e]) initialContext =
             Inr (context\<lparr>ctx_rootOperationTypes := Some rots,
                          ctx_schemaDirectives := ctx_schemaDirectives context @ ds\<rparr>) \<and>
           (\<forall>r\<in>set (orEmpty (se_rootOperationTypeDefinitions e)).
              rots (rotd_operationType r) = Some (rotd_type r)) \<and>
           (ctx_rootOperationTypes context = None \<longrightarrow>
              dom rots = rotd_operationType ` set (orEmpty (se_rootOperationTypeDefinitions e))) \<and>
           (\<forall>post s. analyzeSchema (pre @ schemaExtensionEntry e # post) = Inr s \<longrightarrow>
              (\<forall>r\<in>set (orEmpty (se_rootOperationTypeDefinitions e)).
                 rotd_type r \<noteq> [] \<longrightarrow>
                 rootOperationTypes s (rotd_operationType r) = Some (rotd_type r)))"
proof -
  let ?rs = "orEmpty (se_rootOperationTypeDefinitions e)"
  from schemaExtension_succeeds [OF dirs dist free] obtain rots where
    step: "schemaExtension e context =
             Inr (context\<lparr>ctx_rootOperationTypes := Some rots,
                          ctx_schemaDirectives := ctx_schemaDirectives context @ ds\<rparr>)"
    and b: "\<forall>r\<in>set ?rs. rots (rotd_operationType r) = Some (rotd_type r)"
    and o: "ctx_rootOperationTypes context = None \<longrightarrow> dom rots = rotd_operationType ` set ?rs"
    by (elim exE conjE)
  let ?c1 = "context\<lparr>ctx_rootOperationTypes := Some rots,
                     ctx_schemaDirectives := ctx_schemaDirectives context @ ds\<rparr>"
  have ts: "typeSystem (subType_extension (extensionType_schema e)) context = Inr ?c1"
    using step by (simp add: typeSystem_def typeSystemExtension_def)
  have one: "schema_loop (pre @ [schemaExtensionEntry e]) initialContext = Inr ?c1"
    using pre ts by (simp add: schema_loop_append)
  have fin: "rootOperationTypes s (rotd_operationType r) = Some (rotd_type r)"
    if a: "analyzeSchema (pre @ schemaExtensionEntry e # post) = Inr s"
      and r: "r \<in> set ?rs" and ne: "rotd_type r \<noteq> []" for post s r
  proof -
    from analyzeSchema_Inr [OF a] obtain c where
      c: "schema_loop (pre @ schemaExtensionEntry e # post) initialContext = Inr c"
      and s: "rootOperationTypes s =
         (case ctx_rootOperationTypes c of None \<Rightarrow> Map.empty | Some rots \<Rightarrow> rots)"
      by blast
    from c pre ts have p: "schema_loop post ?c1 = Inr c"
      by (simp add: schema_loop_append)
    have "ctx_rootOperationTypes ?c1 = Some rots" by simp
    from loop_roots_kept [OF p this _ ne, of "rotd_operationType r"] b r
    obtain m' where "ctx_rootOperationTypes c = Some m'"
      "m' (rotd_operationType r) = Some (rotd_type r)" by blast
    with s show ?thesis by simp
  qed
  show ?thesis
  proof (intro exI [of _ rots] conjI allI impI ballI)
    show "schema_loop (pre @ [schemaExtensionEntry e]) initialContext = Inr ?c1" by (rule one)
    show "rots (rotd_operationType r) = Some (rotd_type r)" if "r \<in> set ?rs" for r
      using b that by simp
    show "dom rots = rotd_operationType ` set ?rs" if "ctx_rootOperationTypes context = None"
      using o that by simp
    show "rootOperationTypes s (rotd_operationType r) = Some (rotd_type r)"
      if "analyzeSchema (pre @ schemaExtensionEntry e # post) = Inr s"
        and "r \<in> set ?rs" and "rotd_type r \<noteq> []" for post s r
      using that by (rule fin)
  qed
qed

theorem SchemaExtension_before_SchemaDefinition_witness:
  "\<not> isSchemaDefinition (typeDefinitionEntry scalar_Foo :: (unit, unit) DocumentEntry) \<and>
   \<not> isError (schema_loop
      [typeDefinitionEntry scalar_Foo, schemaExtensionEntry extend_schema_mutation_M
         :: (unit, unit) DocumentEntry] initialContext) \<and>
   (\<exists>s. analyzeSchema
      [typeDefinitionEntry scalar_Foo, schemaExtensionEntry extend_schema_mutation_M,
       typeDefinitionEntry (type_Query_hello ()) :: (unit, unit) DocumentEntry] = Inr s \<and>
      rootOperationTypes s Mutation = Some ''M'')"
proof -
  let ?pre = "[typeDefinitionEntry scalar_Foo :: (unit, unit) DocumentEntry]"
  let ?e = "extend_schema_mutation_M :: unit SchemaExtension"
  let ?post = "[typeDefinitionEntry (type_Query_hello ()) :: (unit, unit) DocumentEntry]"
  let ?c0 = "store (initialContext :: (unit, unit) SchemaContext)
      \<lparr>td_name = ''Foo'', td_description = None, td_directives = [], td_type = scalar\<rparr>"
  have pre: "schema_loop ?pre initialContext = Inr ?c0"
    by (simp add: analyzer_defs example_defs)
  have nodef: "\<forall>d\<in>set ?pre. \<not> isSchemaDefinition d"
    by simp
  have dirs: "directives (se_directives ?e) ''schema definition'' = Inr []"
    by (simp add: analyzer_defs example_defs)
  have dist: "distinct (map rotd_operationType (orEmpty (se_rootOperationTypeDefinitions ?e)))"
    by (simp add: analyzer_defs example_defs)
  have free: "\<forall>r\<in>set (orEmpty (se_rootOperationTypeDefinitions ?e)). \<forall>rots.
      ctx_rootOperationTypes ?c0 = Some rots \<longrightarrow>
      \<not> truthyString (rots (rotd_operationType r))"
    by (simp add: analyzer_defs example_defs)
  from SchemaExtension_before_SchemaDefinition [OF pre nodef dirs dist free]
  obtain rots where
    one: "schema_loop (?pre @ [schemaExtensionEntry ?e]) initialContext =
            Inr (?c0\<lparr>ctx_rootOperationTypes := Some rots,
                           ctx_schemaDirectives := ctx_schemaDirectives ?c0 @ []\<rparr>)"
    and fin: "\<forall>post s. analyzeSchema (?pre @ schemaExtensionEntry ?e # post) = Inr s \<longrightarrow>
               (\<forall>r\<in>set (orEmpty (se_rootOperationTypeDefinitions ?e)). rotd_type r \<noteq> [] \<longrightarrow>
                  rootOperationTypes s (rotd_operationType r) = Some (rotd_type r))"
    by (elim exE conjE)
  have "\<not> isError (analyzeSchema (?pre @ schemaExtensionEntry ?e # ?post))"
    by (simp add: analyzer_defs example_defs)
  then obtain s where s: "analyzeSchema (?pre @ schemaExtensionEntry ?e # ?post) = Inr s"
    by (auto simp: not_isError_iff)
  from fin [rule_format, OF s, of "rotd Mutation ''M''"]
  have "rootOperationTypes s Mutation = Some ''M''"
    by (simp add: example_defs orEmpty_def)
  with s one show ?thesis by simp
qed

text \<open>
  \<^bold>\<open>C2.\<close> The claim: a document without a SchemaDefinition fails with
  \<^verbatim>\<open>No SchemaDefinition\<close>. In this revision \<^verbatim>\<open>schema\<close> ends with
  \<^verbatim>\<open>rootOperationTypes: context.rootOperationTypes ?? {}\<close>, so the empty document is
  accepted.
\<close>

theorem no_SchemaDefinition_counterexample:
  "\<not> isError (analyzeSchema ([] :: (unit, unit) Document))"
  by (simp add: analyzeSchema_def schema_def)

text \<open>
  \<^bold>\<open>C2, amended.\<close> A document without a SchemaDefinition never fails with
  \<^verbatim>\<open>No SchemaDefinition\<close>. When none of its entries is rejected it is accepted, the
  schema has no description, and \<^verbatim>\<open>rootOperationTypes\<close> is the empty mapping when the
  document contains no SchemaExtension either.
\<close>

theorem no_SchemaDefinition_amended:
  assumes "\<forall>d\<in>set document. \<not> isSchemaDefinition d"
  shows "analyzeSchema document \<noteq> Inl (Error ''No SchemaDefinition'') \<and>
         (\<not> isError (schema_loop document initialContext) \<longrightarrow>
            (\<exists>s. analyzeSchema document = Inr s \<and> description s = None \<and>
                 ((\<forall>d\<in>set document. \<not> isSchemaExtension d) \<longrightarrow> rootOperationTypes s = Map.empty)))"
proof (intro conjI impI)
  show "analyzeSchema document \<noteq> Inl (Error ''No SchemaDefinition'')"
    by (rule never_No_SchemaDefinition)
next
  assume "\<not> isError (schema_loop document initialContext)"
  then obtain c where c: "schema_loop document initialContext = Inr c"
    by (auto simp: not_isError_iff)
  have d: "ctx_description c = None"
    using loop_description_unchanged [OF c assms] by (simp add: initialContext_def)
  have r: "ctx_rootOperationTypes c = None" if "\<forall>d\<in>set document. \<not> isSchemaExtension d"
    using loop_roots_unchanged [OF c] assms that by (simp add: initialContext_def)
  show "\<exists>s. analyzeSchema document = Inr s \<and> description s = None \<and>
          ((\<forall>d\<in>set document. \<not> isSchemaExtension d) \<longrightarrow> rootOperationTypes s = Map.empty)"
    using c d r by (auto simp: analyzeSchema_def schema_def)
qed

theorem no_SchemaDefinition_amended_witness:
  "\<not> isSchemaDefinition (typeDefinitionEntry scalar_Foo :: (unit, unit) DocumentEntry) \<and>
   \<not> isError (schema_loop [typeDefinitionEntry scalar_Foo :: (unit, unit) DocumentEntry]
      initialContext) \<and>
   (\<exists>s. analyzeSchema [typeDefinitionEntry scalar_Foo :: (unit, unit) DocumentEntry] = Inr s \<and>
        description s = None \<and> rootOperationTypes s = Map.empty)"
  using no_SchemaDefinition_amended [of "[typeDefinitionEntry scalar_Foo]"]
  by (simp add: analyzer_defs example_defs)

text \<open>
  \<^bold>\<open>C3.\<close> The claim: a type extension whose name has no earlier type definition fails with
  \<^verbatim>\<open>Type extension before type definition for type\<close> and the name. \<^verbatim>\<open>typeExtension\<close>
  tests \<^verbatim>\<open>context.typeDefinitions[definition.name]\<close> for truthiness, and the object
  inherits \<^verbatim>\<open>constructor\<close>: for \<^verbatim>\<open>extend scalar constructor\<close> the test finds a value,
  and the failure is the kind-mismatch one instead.
\<close>

theorem extend_scalar_constructor:
  "analyzeSchema [typeExtensionEntry (extend_scalar ''constructor'') :: (unit, unit) DocumentEntry]
     = Inl (Error ''Type extension for type with different type constructor'')"
  by (simp add: analyzer_defs example_defs)

text \<open>
  For every name that \<^verbatim>\<open>Object.prototype\<close> does not define the claim holds
  (\<open>type_extension_before_definition\<close>), and so does its second half, for every name: an
  extension whose kind differs from the kind of the definition of its name fails with
  \<^verbatim>\<open>Type extension for type with different type\<close> (\<open>type_extension_kind_mismatch\<close>).
\<close>

text \<open>
  \<^bold>\<open>C4.\<close> The claim: two object-type extensions of a base object type that add disjoint
  sets of fields, disjoint from the base's too, end with the same \<^verbatim>\<open>fieldsDefinition\<close> in
  either order. \<^verbatim>\<open>objectTypeExtension\<close> tests \<^verbatim>\<open>typeDefinition.fieldsDefinition[fd.name]\<close>
  for truthiness, and the object inherits \<^verbatim>\<open>toString\<close>. After \<^verbatim>\<open>type Foo { a: T }\<close> the
  extensions \<^verbatim>\<open>extend type Foo { toString: T }\<close> and \<^verbatim>\<open>extend type Foo { b: T }\<close> add the
  disjoint sets \<^verbatim>\<open>{toString}\<close> and \<^verbatim>\<open>{b}\<close>, and no field is defined twice; the analysis
  fails with the duplicate-field error in both orders, and no \<^verbatim>\<open>fieldsDefinition\<close> results.
  In the first order it is the extension processed first that fails.
\<close>

theorem extend_type_Foo_toString:
  "analyzeSchema
     [schemaDefinitionEntry schema_query_Query, typeDefinitionEntry (type_Foo_a ()),
      typeExtensionEntry (extend_type_Foo [''toString''] ()),
      typeExtensionEntry (extend_type_Foo [''b''] ()) :: (unit, unit) DocumentEntry]
     = Inl (Error ''Multiple field definition on type typeSystem extension'') \<and>
   analyzeSchema
     [schemaDefinitionEntry schema_query_Query, typeDefinitionEntry (type_Foo_a ()),
      typeExtensionEntry (extend_type_Foo [''b''] ()),
      typeExtensionEntry (extend_type_Foo [''toString''] ()) :: (unit, unit) DocumentEntry]
     = Inl (Error ''Multiple field definition on type typeSystem extension'') \<and>
   analyzeSchema
     [schemaDefinitionEntry schema_query_Query, typeDefinitionEntry (type_Foo_a ()),
      typeExtensionEntry (extend_type_Foo [''toString''] ()) :: (unit, unit) DocumentEntry]
     = Inl (Error ''Multiple field definition on type typeSystem extension'')"
  by (simp add: analyzer_defs example_defs)

text \<open>
  With a name that \<^verbatim>\<open>Object.prototype\<close> does not define in the place of \<^verbatim>\<open>toString\<close>, the
  same documents are accepted in both orders.
\<close>

lemma extend_type_Foo_c:
  "\<not> isError (analyzeSchema
     [schemaDefinitionEntry schema_query_Query, typeDefinitionEntry (type_Foo_a ()),
      typeExtensionEntry (extend_type_Foo [''c''] ()),
      typeExtensionEntry (extend_type_Foo [''b''] ()) :: (unit, unit) DocumentEntry]) \<and>
   \<not> isError (analyzeSchema
     [schemaDefinitionEntry schema_query_Query, typeDefinitionEntry (type_Foo_a ()),
      typeExtensionEntry (extend_type_Foo [''b''] ()),
      typeExtensionEntry (extend_type_Foo [''c''] ()) :: (unit, unit) DocumentEntry])"
  by (simp add: analyzer_defs example_defs)

text \<open>
  What the merge does apart from the inherited names. Whatever the definition and the two
  extensions are, if one order is accepted then so is the other, with the same
  \<^verbatim>\<open>fieldsDefinition\<close> (\<open>object_extensions_same_outcome\<close>); and an extension whose field
  names overlap those of an extension accepted before it always fails
  (\<open>objectTypeExtension_overlap_fails\<close>). For two extensions each of which the base accepts
  by itself, which excludes an inherited field name, and whose interface lists together
  with the base's repeat no name: disjoint sets of field names are accepted in both orders
  with the same \<^verbatim>\<open>fieldsDefinition\<close>, and overlapping sets make the extension processed
  second fail with the duplicate-field error, in both orders.
\<close>

lemma object_extensions_commute:
  assumes td: "td_type td = object impl fs"
    and ok1: "\<not> isError (objectTypeExtension e1 i1 f1 td)"
    and ok2: "\<not> isError (objectTypeExtension e2 i2 f2 td)"
    and d: "distinct (impl @ orEmpty i1 @ orEmpty i2)"
  shows "(fieldNames f1 \<inter> fieldNames f2 = {} \<longrightarrow>
            (\<exists>t12 t21.
               andThen (objectTypeExtension e1 i1 f1 td) (objectTypeExtension e2 i2 f2) = Inr t12 \<and>
               andThen (objectTypeExtension e2 i2 f2 td) (objectTypeExtension e1 i1 f1) = Inr t21 \<and>
               td_fieldsDefinition t12 = td_fieldsDefinition t21)) \<and>
         (fieldNames f1 \<inter> fieldNames f2 \<noteq> {} \<longrightarrow>
            andThen (objectTypeExtension e1 i1 f1 td) (objectTypeExtension e2 i2 f2)
              = Inl duplicateField \<and>
            andThen (objectTypeExtension e2 i2 f2 td) (objectTypeExtension e1 i1 f1)
              = Inl duplicateField)"
proof -
  from ok1 obtain t1 where a1: "objectTypeExtension e1 i1 f1 td = Inr t1"
    by (auto simp: not_isError_iff)
  from ok2 obtain t2 where a2: "objectTypeExtension e2 i2 f2 td = Inr t2"
    by (auto simp: not_isError_iff)
  have d': "distinct (impl @ orEmpty i2 @ orEmpty i1)"
    using d by (rule distinct_swap)
  show ?thesis
  proof (intro conjI impI)
    assume dis: "fieldNames f1 \<inter> fieldNames f2 = {}"
    from objectTypeExtension_second(1) [OF td a1 a2 d dis] obtain t12 where
      b: "objectTypeExtension e2 i2 f2 t1 = Inr t12" ..
    from objectTypeExtension_twice [OF a1 b] a2 obtain t21 where
      "objectTypeExtension e1 i1 f1 t2 = Inr t21" "td_fieldsDefinition t12 = td_fieldsDefinition t21"
      by auto
    with a1 a2 b show "\<exists>t12 t21.
        andThen (objectTypeExtension e1 i1 f1 td) (objectTypeExtension e2 i2 f2) = Inr t12 \<and>
        andThen (objectTypeExtension e2 i2 f2 td) (objectTypeExtension e1 i1 f1) = Inr t21 \<and>
        td_fieldsDefinition t12 = td_fieldsDefinition t21"
      by simp
  next
    assume ov: "fieldNames f1 \<inter> fieldNames f2 \<noteq> {}"
    from objectTypeExtension_second(2) [OF td a1 a2 d ov] a1
    show "andThen (objectTypeExtension e1 i1 f1 td) (objectTypeExtension e2 i2 f2)
            = Inl duplicateField" by simp
    from ov have "fieldNames f2 \<inter> fieldNames f1 \<noteq> {}" by (simp add: Int_commute)
    from objectTypeExtension_second(2) [OF td a2 a1 d' this] a2
    show "andThen (objectTypeExtension e2 i2 f2 td) (objectTypeExtension e1 i1 f1)
            = Inl duplicateField" by simp
  qed
qed

lemma object_extensions_commute_example:
  "(\<exists>t12 t21.
      andThen (objectTypeExtension (extend_type_Foo [''b''] ()) None
                 (Some [parsedField ''b'' ()]) (Foo_a () :: (unit, unit) TypeDefinition))
        (objectTypeExtension (extend_type_Foo [''c'', ''d''] ()) None
           (Some [parsedField ''c'' (), parsedField ''d'' ()])) = Inr t12 \<and>
      andThen (objectTypeExtension (extend_type_Foo [''c'', ''d''] ()) None
                 (Some [parsedField ''c'' (), parsedField ''d'' ()])
                 (Foo_a () :: (unit, unit) TypeDefinition))
        (objectTypeExtension (extend_type_Foo [''b''] ()) None
           (Some [parsedField ''b'' ()])) = Inr t21 \<and>
      td_fieldsDefinition t12 = td_fieldsDefinition t21) \<and>
   andThen (objectTypeExtension (extend_type_Foo [''b'', ''c''] ()) None
              (Some [parsedField ''b'' (), parsedField ''c'' ()])
              (Foo_a () :: (unit, unit) TypeDefinition))
     (objectTypeExtension (extend_type_Foo [''c'', ''d''] ()) None
        (Some [parsedField ''c'' (), parsedField ''d'' ()])) = Inl duplicateField \<and>
   andThen (objectTypeExtension (extend_type_Foo [''c'', ''d''] ()) None
              (Some [parsedField ''c'' (), parsedField ''d'' ()])
              (Foo_a () :: (unit, unit) TypeDefinition))
     (objectTypeExtension (extend_type_Foo [''b'', ''c''] ()) None
        (Some [parsedField ''b'' (), parsedField ''c'' ()])) = Inl duplicateField"
proof -
  have td: "td_type (Foo_a () :: (unit, unit) TypeDefinition) =
      object []
        [''a'' \<mapsto> \<lparr>fd_description = None, fd_name = ''a'', fd_argumentsDefinition = Map.empty,
                   fd_directives = [], fd_type = ()\<rparr>]"
    by (simp add: Foo_a_def)
  have b: "\<not> isError (objectTypeExtension (extend_type_Foo [''b''] ()) None
              (Some [parsedField ''b'' ()]) (Foo_a () :: (unit, unit) TypeDefinition))"
    by (simp add: analyzer_defs example_defs)
  have bc: "\<not> isError (objectTypeExtension (extend_type_Foo [''b'', ''c''] ()) None
              (Some [parsedField ''b'' (), parsedField ''c'' ()])
              (Foo_a () :: (unit, unit) TypeDefinition))"
    by (simp add: analyzer_defs example_defs)
  have cd: "\<not> isError (objectTypeExtension (extend_type_Foo [''c'', ''d''] ()) None
              (Some [parsedField ''c'' (), parsedField ''d'' ()])
              (Foo_a () :: (unit, unit) TypeDefinition))"
    by (simp add: analyzer_defs example_defs)
  have d: "distinct ([] @ orEmpty None @ orEmpty (None :: string list option))"
    by (simp add: orEmpty_def)
  have dis: "fieldNames (Some [parsedField ''b'' () :: (unit, unit) ParserFieldDefinition]) \<inter>
      fieldNames (Some [parsedField ''c'' (), parsedField ''d'' ()
        :: (unit, unit) ParserFieldDefinition]) = {}"
    by (simp add: fieldNames_def orEmpty_def parsedField_def)
  have ov: "fieldNames (Some [parsedField ''b'' (), parsedField ''c'' ()
        :: (unit, unit) ParserFieldDefinition]) \<inter>
      fieldNames (Some [parsedField ''c'' (), parsedField ''d'' ()
        :: (unit, unit) ParserFieldDefinition]) \<noteq> {}"
    by (simp add: fieldNames_def orEmpty_def parsedField_def)
  from object_extensions_commute [OF td b cd d] dis
       object_extensions_commute [OF td bc cd d] ov
  show ?thesis by blast
qed

text \<open>
  \<^bold>\<open>C5.\<close> The name of a TypeDefinition is looked up in the one map \<^verbatim>\<open>typeDefinitions\<close>
  before anything of it is built. A document with two TypeDefinitions of one name, of the
  same kind or not, fails: with the failure of an entry before the second definition if
  one is rejected, with \<^verbatim>\<open>Multiple TypeDefinition for\<close> that name otherwise, whatever
  the second definition contains.
\<close>

theorem second_TypeDefinition_of_a_name:
  assumes "ptd_name d1 = ptd_name d2"
  shows "analyzeSchema (pre @ typeDefinitionEntry d1 # mid @ typeDefinitionEntry d2 # post) =
     (case schema_loop (pre @ typeDefinitionEntry d1 # mid) initialContext of
        Inl e \<Rightarrow> Inl e
      | Inr context \<Rightarrow> Inl (Error (''Multiple TypeDefinition for '' @ ptd_name d2)))"
proof (cases "schema_loop (pre @ typeDefinitionEntry d1 # mid) initialContext")
  case (Inl e)
  then have "schema_loop ((pre @ typeDefinitionEntry d1 # mid) @ typeDefinitionEntry d2 # post)
      initialContext = Inl e"
    by (simp only: schema_loop_append andThen_Inl)
  then show ?thesis using Inl by (simp add: analyzeSchema_Inl)
next
  case (Inr c)
  from after_typeDefinition [OF Inr] assms obtain td where
    "ctx_typeDefinitions c (ptd_name d2) = Some td" by auto
  from multiple_typeDefinition [OF Inr this, of post] Inr show ?thesis by simp
qed

theorem second_TypeDefinition_of_a_name_witness:
  "ptd_name (scalar_Foo :: (unit, unit) ParserTypeDefinition)
     = ptd_name (type_Foo_implements [''A'', ''A''] :: (unit, unit) ParserTypeDefinition) \<and>
   \<not> isError (schema_loop [typeDefinitionEntry scalar_Foo :: (unit, unit) DocumentEntry]
      initialContext) \<and>
   analyzeSchema
      [typeDefinitionEntry scalar_Foo, typeDefinitionEntry (type_Foo_implements [''A'', ''A''])
         :: (unit, unit) DocumentEntry]
     = Inl (Error ''Multiple TypeDefinition for Foo'')"
  using second_TypeDefinition_of_a_name
    [of "scalar_Foo :: (unit, unit) ParserTypeDefinition" "type_Foo_implements [''A'', ''A'']"
       "[]" "[]" "[]"]
  by (simp add: analyzer_defs example_defs)

text \<open>
  \<^bold>\<open>C6.\<close> A document with two SchemaDefinition entries, wherever they stand, fails: with
  the failure of an entry before the second SchemaDefinition if one is rejected, with
  \<^verbatim>\<open>Multiple SchemaDefinition\<close> otherwise.
\<close>

theorem two_SchemaDefinitions:
  "analyzeSchema (pre @ schemaDefinitionEntry d1 # mid @ schemaDefinitionEntry d2 # post) =
     (case schema_loop (pre @ schemaDefinitionEntry d1 # mid) initialContext of
        Inl e \<Rightarrow> Inl e
      | Inr context \<Rightarrow> Inl (Error ''Multiple SchemaDefinition''))"
proof (cases "schema_loop (pre @ schemaDefinitionEntry d1 # mid) initialContext")
  case (Inl e)
  then have "schema_loop ((pre @ schemaDefinitionEntry d1 # mid) @ schemaDefinitionEntry d2 # post)
      initialContext = Inl e"
    by (simp only: schema_loop_append andThen_Inl)
  then show ?thesis using Inl by (simp add: analyzeSchema_Inl)
next
  case (Inr c)
  from after_schemaDefinition [OF Inr] have "ctx_rootOperationTypes c \<noteq> None" .
  from multiple_schemaDefinition [OF Inr this, of d2 post] Inr show ?thesis by simp
qed

theorem two_SchemaDefinitions_witness:
  "\<not> isError (schema_loop
      [schemaDefinitionEntry schema_query_Query, typeDefinitionEntry scalar_Foo
         :: (unit, unit) DocumentEntry] initialContext) \<and>
   analyzeSchema
      [schemaDefinitionEntry schema_query_Query, typeDefinitionEntry scalar_Foo,
       schemaDefinitionEntry schema_query_Query :: (unit, unit) DocumentEntry]
     = Inl (Error ''Multiple SchemaDefinition'')"
  using two_SchemaDefinitions
    [of "[] :: (unit, unit) Document" schema_query_Query "[typeDefinitionEntry scalar_Foo]"
       schema_query_Query "[]"]
  by (simp add: analyzer_defs example_defs)

text \<open>
  \<^bold>\<open>C7.\<close> The claim: \<^verbatim>\<open>type Foo implements A & A\<close> fails with a message citing
  \<^verbatim>\<open>implements on type Foo\<close>. \<^verbatim>\<open>objectTypeDefinition\<close> builds the label from
  \<^verbatim>\<open>definition.description\<close>, not from \<^verbatim>\<open>definition.name\<close>; the type has no description,
  and the message names the type \<^verbatim>\<open>undefined\<close>.
\<close>

theorem type_Foo_implements_A_A:
  "analyzeSchema
     [schemaDefinitionEntry schema_query_Query,
      typeDefinitionEntry (type_Foo_implements [''A'', ''A'']) :: (unit, unit) DocumentEntry]
     = Inl (Error ''Duplicate implements on type undefined'')"
  by (simp add: analyzer_defs example_defs)

text \<open>
  The second half of the claim holds: \<^verbatim>\<open>type Foo implements A\<close> followed by
  \<^verbatim>\<open>extend type Foo implements A\<close> fails, and there the message does cite the name.
\<close>

lemma extend_type_Foo_implements_A:
  "analyzeSchema
     [schemaDefinitionEntry schema_query_Query,
      typeDefinitionEntry (type_Foo_implements [''A'']),
      typeExtensionEntry (extend_type_Foo_implements [''A'']) :: (unit, unit) DocumentEntry]
     = Inl (Error ''Duplicate implements on type Foo extension'')"
  by (simp add: analyzer_defs example_defs)

text \<open>
  \<^bold>\<open>C8.\<close> The document \<^verbatim>\<open>schema { query: Query } type Query { hello: String }\<close> is accepted;
  \<^verbatim>\<open>rootOperationTypes.query\<close> is \<^verbatim>\<open>Query\<close>, \<^verbatim>\<open>typeDefinitions["Query"]\<close> has the tag
  \<^verbatim>\<open>object\<close>, and its \<^verbatim>\<open>fieldsDefinition\<close> has a field \<^verbatim>\<open>hello\<close> whose \<^verbatim>\<open>type\<close> is the parsed
  type node \<open>t\<close>, whatever that node is.
\<close>

theorem schema_query_Query_type_Query_hello:
  fixes t :: 'ty
  shows "\<exists>s td fs fd.
     analyzeSchema
       [schemaDefinitionEntry schema_query_Query, typeDefinitionEntry (type_Query_hello t)
          :: ('ty, 'val) DocumentEntry] = Inr s \<and>
     rootOperationTypes s Query = Some ''Query'' \<and>
     typeDefinitions s ''Query'' = Some td \<and>
     typeTag (td_type td) = ''object'' \<and>
     td_fieldsDefinition td = Some fs \<and>
     fs ''hello'' = Some fd \<and>
     fd_name fd = ''hello'' \<and>
     fd_type fd = t"
  by (simp add: analyzer_defs example_defs td_fieldsDefinition_def)

theorem schema_query_Query_type_Query_hello_witness:
  "\<exists>s td fs fd.
     analyzeSchema
       [schemaDefinitionEntry schema_query_Query,
        typeDefinitionEntry (type_Query_hello ''String'') :: (string, unit) DocumentEntry] = Inr s \<and>
     rootOperationTypes s Query = Some ''Query'' \<and>
     typeDefinitions s ''Query'' = Some td \<and>
     typeTag (td_type td) = ''object'' \<and>
     td_fieldsDefinition td = Some fs \<and>
     fs ''hello'' = Some fd \<and>
     fd_name fd = ''hello'' \<and>
     fd_type fd = ''String''"
  by (rule schema_query_Query_type_Query_hello [where ?'val = unit and t = "''String''"])

text \<open>
  \<^bold>\<open>C9.\<close> A document of the wrong kind is an error in both directions. \<^verbatim>\<open>analyzeSchema\<close>
  fails on every document that contains an executable definition: with the failure of an
  earlier entry if one is rejected, with \<^verbatim>\<open>ExecutableDocument in Schema\<close> otherwise.
  \<^verbatim>\<open>analyzeOperation\<close> fails on every document that contains a type-system definition or
  extension, with \<^verbatim>\<open>TypeSystemDefinitionOrExtension in Operation\<close>.
\<close>

theorem document_kind_misuse:
  fixes document pre post :: "('ty, 'val) Document"
  shows "((\<exists>d\<in>set document. isExecutable d) \<longrightarrow> isError (analyzeSchema document)) \<and>
         analyzeSchema (pre @ type_executable x # post) =
           (case schema_loop pre initialContext of
              Inl e \<Rightarrow> Inl e
            | Inr context \<Rightarrow> Inl (Error ''ExecutableDocument in Schema'')) \<and>
         ((\<exists>d\<in>set document. isTypeSystem d) \<longrightarrow>
            (analyzeOperation document :: Error + ('frag, 'op) Operation)
              = Inl (Error ''TypeSystemDefinitionOrExtension in Operation''))"
proof (intro conjI impI)
  assume "\<exists>d\<in>set document. isExecutable d"
  then show "isError (analyzeSchema document)"
    by (simp add: isError_analyzeSchema schema_loop_executable)
next
  show "analyzeSchema (pre @ type_executable x # post) =
          (case schema_loop pre initialContext of
             Inl e \<Rightarrow> Inl e
           | Inr context \<Rightarrow> Inl (Error ''ExecutableDocument in Schema''))"
    by (cases "schema_loop pre initialContext")
       (simp_all add: analyzeSchema_def schema_def schema_loop_append)
next
  assume "\<exists>d\<in>set document. isTypeSystem d"
  then show "(analyzeOperation document :: Error + ('frag, 'op) Operation)
      = Inl (Error ''TypeSystemDefinitionOrExtension in Operation'')"
    by (simp add: analyzeOperation_def operation_def operation_loop_typeSystem)
qed

theorem document_kind_misuse_witness:
  "isError (analyzeSchema
      [schemaDefinitionEntry schema_query_Query, type_executable subType_operation
         :: (unit, unit) DocumentEntry]) \<and>
   analyzeSchema
      [schemaDefinitionEntry schema_query_Query, type_executable subType_operation
         :: (unit, unit) DocumentEntry]
     = Inl (Error ''ExecutableDocument in Schema'') \<and>
   (analyzeOperation
      [schemaDefinitionEntry schema_query_Query, type_executable subType_operation
         :: (unit, unit) DocumentEntry] :: Error + (unit, unit) Operation)
     = Inl (Error ''TypeSystemDefinitionOrExtension in Operation'')"
  using document_kind_misuse
    [where ?'frag = unit and ?'op = unit and
       document = "[schemaDefinitionEntry schema_query_Query, type_executable subType_operation
         :: (unit, unit) DocumentEntry]" and
       pre = "[schemaDefinitionEntry schema_query_Query]" and x = subType_operation and
       post = "[]"]
  by (simp add: analyzer_defs example_defs)

text \<open>
  \<^bold>\<open>C10.\<close> A document in which a SchemaExtension precedes a SchemaDefinition fails, also
  when that definition is the only one of the document: the extension has created the
  root-operation-types mapping, and the definition finds it. The failure is that of an
  entry before the definition if one is rejected, \<^verbatim>\<open>Multiple SchemaDefinition\<close> otherwise.
\<close>

theorem SchemaExtension_then_SchemaDefinition:
  "analyzeSchema (pre @ schemaExtensionEntry e # mid @ schemaDefinitionEntry d # post) =
     (case schema_loop (pre @ schemaExtensionEntry e # mid) initialContext of
        Inl err \<Rightarrow> Inl err
      | Inr context \<Rightarrow> Inl (Error ''Multiple SchemaDefinition''))"
proof (cases "schema_loop (pre @ schemaExtensionEntry e # mid) initialContext")
  case (Inl err)
  then have "schema_loop ((pre @ schemaExtensionEntry e # mid) @ schemaDefinitionEntry d # post)
      initialContext = Inl err"
    by (simp only: schema_loop_append andThen_Inl)
  then show ?thesis using Inl by (simp add: analyzeSchema_Inl)
next
  case (Inr c)
  from after_schemaExtension [OF Inr] have "ctx_rootOperationTypes c \<noteq> None" .
  from multiple_schemaDefinition [OF Inr this, of d post] Inr show ?thesis by simp
qed

theorem SchemaExtension_then_SchemaDefinition_witness:
  "\<not> isError (schema_loop
      [schemaExtensionEntry extend_schema_mutation_M :: (unit, unit) DocumentEntry]
      initialContext) \<and>
   analyzeSchema
      [schemaExtensionEntry extend_schema_mutation_M, schemaDefinitionEntry schema_query_Query
         :: (unit, unit) DocumentEntry]
     = Inl (Error ''Multiple SchemaDefinition'')"
  using SchemaExtension_then_SchemaDefinition
    [of "[] :: (unit, unit) Document" extend_schema_mutation_M "[]" schema_query_Query "[]"]
  by (simp add: analyzer_defs example_defs)

end
